theory Spec2Isabelle
  imports Complex_Main
begin

section \<open>Values, series and frames\<close>

text \<open>
  The notebook works on one pandas DataFrame of floats. Only comparisons are ever made on
  the numbers (\<open>==\<close>, \<open><\<close>, \<open>>\<close> through \<open>min\<close> and \<open>max\<close>), so the finite and infinite
  floats are any linear order \<open>'a\<close>, and NaN is a value of its own that compares false with
  everything, itself included.
\<close>

datatype 'a pyfloat = Num 'a | NaN

fun py_eq :: "'a pyfloat \<Rightarrow> 'a pyfloat \<Rightarrow> bool" where
  "py_eq (Num a) (Num b) = (a = b)"
| "py_eq _ _ = False"

fun py_lt :: "('a::linorder) pyfloat \<Rightarrow> 'a pyfloat \<Rightarrow> bool" where
  "py_lt (Num a) (Num b) = (a < b)"
| "py_lt _ _ = False"

fun py_gt :: "('a::linorder) pyfloat \<Rightarrow> 'a pyfloat \<Rightarrow> bool" where
  "py_gt (Num a) (Num b) = (b < a)"
| "py_gt _ _ = False"

text \<open>The exceptions that the modelled calls can raise.\<close>

datatype error =
    ValueError
  | TypeError
  | IndexError
  | KeyError string
  | NameError string
  | OutOfBoundsDatetime

text \<open>A timestamp of the index: a calendar day at midnight.\<close>

record stamp =
  year :: nat
  month :: nat
  day :: nat

text \<open>A pandas Series: a name, an index and the values, one per index entry.\<close>

record 'a series =
  sname :: "string option"
  sindex :: "stamp list"
  svalues :: "'a pyfloat list"

text \<open>
  A pandas DataFrame, column by column as \<open>DataFrame(dict)\<close> builds it: the row index and
  the labelled columns in their order.
\<close>

record 'a frame =
  index :: "stamp list"
  cols :: "(string \<times> 'a pyfloat list) list"

definition columns :: "'a frame \<Rightarrow> string list" where
  "columns d = map fst (cols d)"

definition shape :: "'a frame \<Rightarrow> nat \<times> nat" where
  "shape d = (length (index d), length (cols d))"

section \<open>The styling cell\<close>

text \<open>
  The builtins \<open>min\<close> and \<open>max\<close> on an iterable: ValueError when it is empty, otherwise a
  left-to-right scan that replaces the running result only when the next item is strictly
  smaller (greater).
\<close>

definition py_min :: "('a::linorder) series \<Rightarrow> error + 'a pyfloat" where
  "py_min s =
     (case svalues s of
        [] \<Rightarrow> Inl ValueError
      | x # xs \<Rightarrow> Inr (foldl (\<lambda>best item. if py_lt item best then item else best) x xs))"

definition py_max :: "('a::linorder) series \<Rightarrow> error + 'a pyfloat" where
  "py_max s =
     (case svalues s of
        [] \<Rightarrow> Inl ValueError
      | x # xs \<Rightarrow> Inr (foldl (\<lambda>best item. if py_gt item best then item else best) x xs))"

text \<open>
  \<^verbatim>\<open>
  def highlight(s, func, color):
      is_true = s == func(s)
      return [f'background-color: {color}' if v else '' for v in is_true]
  \<close>
\<close>

definition highlight ::
  "'a series \<Rightarrow> ('a series \<Rightarrow> error + 'a pyfloat) \<Rightarrow> string \<Rightarrow> error + string list" where
  "highlight s func color =
     (case func s of
        Inl e \<Rightarrow> Inl e
      | Inr m \<Rightarrow>
          (let is_true = map (\<lambda>v. py_eq v m) (svalues s)
           in Inr (map (\<lambda>v. if v then ''background-color: '' @ color else '''') is_true)))"

definition hmin :: "('a::linorder) series \<Rightarrow> error + string list" where
  "hmin s = highlight s py_min ''red''"

definition hmax :: "('a::linorder) series \<Rightarrow> error + string list" where
  "hmax s = highlight s py_max ''lime''"

text \<open>
  \<open>data.style.apply(f)\<close>: \<open>data.style\<close> refuses, with ValueError, a frame whose index or
  whose column labels are not unique. With the default \<open>axis=0\<close> the pass hands \<open>f\<close> each
  column as a Series, in column order, and keeps the list of styles each call returns; the
  first call that raises ends the pass. On a frame with no rows or no columns pandas does
  not call \<open>f\<close> and there is nothing to style.
\<close>

definition column_series :: "'a frame \<Rightarrow> string \<times> 'a pyfloat list \<Rightarrow> 'a series" where
  "column_series d c = \<lparr>sname = Some (fst c), sindex = index d, svalues = snd c\<rparr>"

fun apply_columns ::
  "('a series \<Rightarrow> error + string list) \<Rightarrow> 'a series list \<Rightarrow> error + string list list" where
  "apply_columns f [] = Inr []"
| "apply_columns f (s # ss) =
     (case f s of
        Inl e \<Rightarrow> Inl e
      | Inr r \<Rightarrow> (case apply_columns f ss of Inl e \<Rightarrow> Inl e | Inr rs \<Rightarrow> Inr (r # rs)))"

definition style_apply ::
  "('a series \<Rightarrow> error + string list) \<Rightarrow> 'a frame \<Rightarrow> error + string list list" where
  "style_apply f d =
     (if \<not> distinct (index d) \<or> \<not> distinct (map fst (cols d)) then Inl ValueError
      else if index d = [] \<or> cols d = [] then Inr (map (\<lambda>c. []) (cols d))
      else apply_columns f (map (column_series d) (cols d)))"

section \<open>Projections of a frame\<close>

text \<open>
  \<open>data[col]\<close>: KeyError when no column has the label, the column as a Series when exactly
  one has it, and the frame of all columns with that label when several have it.
\<close>

datatype 'a pdobj = Ser "'a series" | Frm "'a frame"

definition getitem :: "'a frame \<Rightarrow> string \<Rightarrow> error + 'a pdobj" where
  "getitem d c =
     (case filter (\<lambda>p. fst p = c) (cols d) of
        [] \<Rightarrow> Inl (KeyError c)
      | [p] \<Rightarrow> Inr (Ser (column_series d p))
      | ps \<Rightarrow> Inr (Frm \<lparr>index = index d, cols = ps\<rparr>))"

text \<open>\<open>data[[c1, ..., cn]]\<close>: the frame of the columns with these labels, in the order asked.\<close>

fun select_columns ::
  "(string \<times> 'a pyfloat list) list \<Rightarrow> string list \<Rightarrow> error + (string \<times> 'a pyfloat list) list" where
  "select_columns cs [] = Inr []"
| "select_columns cs (c # rest) =
     (case filter (\<lambda>p. fst p = c) cs of
        [] \<Rightarrow> Inl (KeyError c)
      | ps \<Rightarrow> (case select_columns cs rest of Inl e \<Rightarrow> Inl e | Inr qs \<Rightarrow> Inr (ps @ qs)))"

definition getitem_list :: "'a frame \<Rightarrow> string list \<Rightarrow> error + 'a frame" where
  "getitem_list d cs =
     (case select_columns (cols d) cs of
        Inl e \<Rightarrow> Inl e
      | Inr ps \<Rightarrow> Inr \<lparr>index = index d, cols = ps\<rparr>)"

text \<open>\<open>d.rename(columns={old: new})\<close> returns a relabelled copy.\<close>

definition rename :: "string \<Rightarrow> string \<Rightarrow> 'a frame \<Rightarrow> 'a frame" where
  "rename old new d =
     \<lparr>index = index d, cols = map (\<lambda>p. (if fst p = old then new else fst p, snd p)) (cols d)\<rparr>"

definition head :: "nat \<Rightarrow> 'a frame \<Rightarrow> 'a frame" where
  "head n d = \<lparr>index = take n (index d), cols = map (\<lambda>p. (fst p, take n (snd p))) (cols d)\<rparr>"

definition pdobj_index :: "'a pdobj \<Rightarrow> stamp list" where
  "pdobj_index x = (case x of Ser s \<Rightarrow> sindex s | Frm d \<Rightarrow> index d)"

text \<open>
  \<open>random.choice(seq)\<close>: IndexError on an empty sequence, otherwise \<open>seq[i]\<close> for a random
  \<open>i\<close> below \<open>len(seq)\<close>. The random source is the number \<open>r\<close>; \<open>r mod len(seq)\<close> reaches
  every index below the length and nothing else.
\<close>

definition random_choice :: "nat \<Rightarrow> 'b list \<Rightarrow> error + 'b" where
  "random_choice r xs = (if xs = [] then Inl IndexError else Inr (xs ! (r mod length xs)))"

text \<open>
  \<open>re.split(r'T', s)\<close>: the pieces of \<open>s\<close> between the occurrences of the character, at
  least one piece.
\<close>

fun re_split :: "char \<Rightarrow> string \<Rightarrow> string list" where
  "re_split c [] = [[]]"
| "re_split c (x # xs) =
     (if x = c then [] # re_split c xs
      else (case re_split c xs of [] \<Rightarrow> [[x]] | p # ps \<Rightarrow> (x # p) # ps))"

definition first_item :: "'b list \<Rightarrow> error + 'b" where
  "first_item xs = (case xs of [] \<Rightarrow> Inl IndexError | x # rest \<Rightarrow> Inr x)"

section \<open>The setup cell\<close>

text \<open>
  \<^verbatim>\<open>
  pdt.N = 12
  pdt.K = 6
  data = pdt.makeTimeDataFrame(freq='MS')
  print('rows, cols:', data.shape)
  data.head(6)
  \<close>
  The first two lines set the number of rows and of columns that \<open>makeTimeDataFrame\<close> reads.
\<close>

definition N :: nat where
  "N = 12"

definition K :: nat where
  "K = 6"

text \<open>
  Modelled from the spec: the function \<open>makeTimeDataFrame\<close> of \<open>pandas.util.testing\<close>, with
  its helpers \<open>makeDateIndex\<close> and \<open>getCols\<close>; pandas is not among the sources. The spec has
  the result as "a two-dimensional labeled time-indexed table of numeric values (rows =
  monthly timestamps, columns = named numeric series)". In pandas the function builds one
  column for each of the first \<open>K\<close> capital letters; a column holds \<open>N\<close> draws of \<open>randn\<close>
  over the index \<open>bdate_range(datetime(2000, 1, 1), periods=N, freq=freq)\<close>, which for
  \<open>'MS'\<close> is the first day of \<open>N\<close> consecutive months from January 2000 (a timestamp
  cannot lie beyond April 2262), and a frame without columns has no rows. The draws are the
  function \<open>rnd\<close> (column, row); \<open>randn\<close> draws numbers, never NaN.
\<close>

definition makeDateIndex :: "nat \<Rightarrow> error + stamp list" where
  "makeDateIndex k =
     (if 3148 < k then Inl OutOfBoundsDatetime
      else Inr (map (\<lambda>i. \<lparr>year = 2000 + i div 12, month = 1 + i mod 12, day = 1\<rparr>) [0..<k]))"

definition getCols :: "nat \<Rightarrow> string list" where
  "getCols k = map (\<lambda>c. [c]) (take k ''ABCDEFGHIJKLMNOPQRSTUVWXYZ'')"

definition makeTimeDataFrame :: "nat \<Rightarrow> nat \<Rightarrow> (nat \<Rightarrow> nat \<Rightarrow> 'a) \<Rightarrow> error + 'a frame" where
  "makeTimeDataFrame nper k rnd =
     (case makeDateIndex nper of
        Inl e \<Rightarrow> Inl e
      | Inr idx \<Rightarrow>
          Inr \<lparr>index = (if k = 0 then [] else idx),
               cols = map (\<lambda>j. (getCols k ! j, map (\<lambda>i. Num (rnd j i)) [0..<nper]))
                          [0..<length (getCols k)]\<rparr>)"

section \<open>The state of the notebook\<close>

text \<open>
  Modelled from the spec: the class \<open>TSExplorer\<close> of the module \<open>mywidgets\<close>, which the
  notebook imports and which is not among the sources. The spec has it as "an external
  reusable widget class that wraps a dataframe and exposes selection state", reached through
  the constructor, the \<open>selected_data\<close> property and the \<open>reset\<close> method, and has the
  dataframe "never mutated". The object keeps the frame and the layout it was built with;
  the spec says nothing of what the selection holds, and the model leaves it out.
\<close>

record 'a tsexplorer =
  wrapped :: "'a frame"
  layout :: "(string \<times> string) list"

text \<open>
  What the cells show: one entry for each call that prints, displays or plots, in the order
  of the calls.
\<close>

datatype 'a rendering =
    Print_shape "nat \<times> nat"
  | Display_frame "'a frame"
  | Display_styled "'a frame" "string list list" "string list list"
  | Pandas_plot "'a pdobj" "nat \<times> nat"
  | Seaborn_lineplot "'a frame" "nat \<times> nat"
  | Bokeh_loaded
  | Bokeh_show string "'a frame"
  | Bqplot_vbox string "stamp list" "'a pdobj" nat
  | Interact_dropdown string "string list"
  | Show_tse "'a tsexplorer"
  | Show_selected_data
  | Traceback error

text \<open>How the notebook reaches into the \<open>TSExplorer\<close> object: the name used and the keywords.\<close>

datatype access = New string "string list" | Attr string | Call string "string list"

text \<open>
  An element of \<open>selector.selected\<close>: what \<open>str\<close> gives for it, and its truth value.
\<close>

record point =
  shown :: string
  nonzero :: bool

text \<open>
  The global names of the kernel that a cell after the setup binds and that the same or
  another cell reads later. A name that is not bound yet is \<open>None\<close>. The matplotlib cell
  binds \<open>plt\<close> and \<open>fsize\<close> together, so \<open>fsize\<close> stands for both; \<open>widgets_bound\<close> says
  whether \<open>import ipywidgets as widgets\<close> has run. \<open>selector_selected\<close> is
  \<open>selector.selected\<close>, which is \<open>None\<close> or a numpy array of points, \<open>label_value\<close>
  is \<open>label.value\<close>, \<open>dropdowns\<close> are the options of the dropdowns that \<open>interact\<close> has
  built, \<open>tse_log\<close> lists the accesses to \<open>tse\<close> so far.
\<close>

record 'a nb =
  data :: "'a frame"
  fsize :: "(nat \<times> nat) option"
  widgets_bound :: bool
  col :: "string option"
  source :: "'a pdobj option"
  selector_selected :: "point list option option"
  label_value :: "string option"
  dropdowns :: "string list list"
  tse :: "'a tsexplorer option"
  tse_log :: "access list"
  outputs :: "'a rendering list"

definition setup_cell :: "(nat \<Rightarrow> nat \<Rightarrow> 'a) \<Rightarrow> error + 'a nb" where
  "setup_cell rnd =
     (case makeTimeDataFrame N K rnd of
        Inl e \<Rightarrow> Inl e
      | Inr d \<Rightarrow>
          Inr \<lparr>data = d, fsize = None, widgets_bound = False, col = None, source = None,
               selector_selected = None, label_value = None, dropdowns = [], tse = None,
               tse_log = [], outputs = [Print_shape (shape d), Display_frame (head 6 d)]\<rparr>)"

definition emit :: "'a rendering \<Rightarrow> 'a nb \<Rightarrow> 'a nb" where
  "emit x st = st\<lparr>outputs := outputs st @ [x]\<rparr>"

section \<open>The cells after the setup\<close>

text \<open>
  A cell, a callback or a function of the notebook takes the state of the kernel and returns
  the exception that ended it, if any, with the state it leaves: the names bound before an
  exception stay bound.
\<close>

type_synonym 'a step = "'a nb \<Rightarrow> error option \<times> 'a nb"

text \<open>
  \<^verbatim>\<open>display(data.style.apply(hmin).apply(hmax))\<close>
  The two passes run when the table is rendered, \<open>hmin\<close> first.
\<close>

definition style_cell :: "('a::linorder) step" where
  "style_cell st =
     (case style_apply hmin (data st) of
        Inl e \<Rightarrow> (Some e, st)
      | Inr reds \<Rightarrow>
          (case style_apply hmax (data st) of
             Inl e \<Rightarrow> (Some e, st)
           | Inr limes \<Rightarrow> (None, emit (Display_styled (data st) reds limes) st)))"

text \<open>
  \<^verbatim>\<open>
  import matplotlib.pyplot as plt
  fsize = (18, 5)
  data.plot(figsize=fsize)
  \<close>
  \<open>data.plot\<close> raises TypeError on a frame with no rows or no columns: there is nothing to
  plot.
\<close>

definition matplotlib_cell :: "'a step" where
  "matplotlib_cell st =
     (let st1 = st\<lparr>fsize := Some (18, 5)\<rparr>
      in if index (data st1) = [] \<or> cols (data st1) = [] then (Some TypeError, st1)
         else (None, emit (Pandas_plot (Frm (data st1)) (18, 5)) st1))"

text \<open>
  \<^verbatim>\<open>
  import seaborn as sns
  _, ax = plt.subplots(figsize=fsize)
  sns.lineplot(data=data, ax=ax, style='event', markers=True, dashes=False, n_boot=3)
  \<close>
  The second line reads \<open>plt\<close> before \<open>fsize\<close>.
\<close>

definition seaborn_cell :: "'a step" where
  "seaborn_cell st =
     (case fsize st of
        None \<Rightarrow> (Some (NameError ''plt''), st)
      | Some fs \<Rightarrow> (None, emit (Seaborn_lineplot (data st) fs) st))"

text \<open>
  \<^verbatim>\<open>
  output_notebook()
  col = random.choice(data.columns)
  source = ColumnDataSource(data[[col]].rename(columns={col: 'series'}))
  p = figure(x_axis_type="datetime", plot_width=980, plot_height=200, title=f'Timeseries {col}')
  p.line('index', 'series', source=source)
  show(p)
  \<close>
  \<open>output_notebook()\<close> shows that the library is loaded.
\<close>

definition bokeh_cell :: "nat \<Rightarrow> 'a step" where
  "bokeh_cell r st =
     (case random_choice r (columns (data st)) of
        Inl e \<Rightarrow> (Some e, emit Bokeh_loaded st)
      | Inr c \<Rightarrow>
          (let st1 = (emit Bokeh_loaded st)\<lparr>col := Some c\<rparr>
           in (case getitem_list (data st1) [c] of
                 Inl e \<Rightarrow> (Some e, st1)
               | Inr d \<Rightarrow>
                   (let st2 = st1\<lparr>source := Some (Frm (rename c ''series'' d))\<rparr>
                    in (None, emit (Bokeh_show (''Timeseries '' @ c) (rename c ''series'' d))
                                 st2)))))"

text \<open>
  \<^verbatim>\<open>
  def index_sel_dt_callback(change):
      if selector.selected:
          date = re.split(r'T', str(selector.selected[0]))[0]
          label.value = date
  \<close>
  \<open>change\<close> is the dictionary that the widget library hands to an observer.
\<close>

record change =
  property :: string
  old :: "point list option"
  new :: "point list option"

text \<open>
  The truth value of \<open>selector.selected\<close> in \<open>if selector.selected:\<close>. \<open>None\<close> is false. A
  numpy array with no element is false, one with a single element has the truth value of
  the element, and one with more elements has none: the test raises ValueError.
\<close>

definition truthy :: "point list option \<Rightarrow> error + bool" where
  "truthy x =
     (case x of
        None \<Rightarrow> Inr False
      | Some [] \<Rightarrow> Inr False
      | Some [p] \<Rightarrow> Inr (nonzero p)
      | Some (p # q # rest) \<Rightarrow> Inl ValueError)"

text \<open>\<open>x[0]\<close> on an optional sequence: \<open>None\<close> cannot be subscripted.\<close>

definition subscript0 :: "'b list option \<Rightarrow> error + 'b" where
  "subscript0 x = (case x of None \<Rightarrow> Inl TypeError | Some xs \<Rightarrow> first_item xs)"

definition index_sel_dt_callback :: "change \<Rightarrow> 'a step" where
  "index_sel_dt_callback ch st =
     (case selector_selected st of
        None \<Rightarrow> (Some (NameError ''selector''), st)
      | Some sel \<Rightarrow>
          (case truthy sel of
             Inl e \<Rightarrow> (Some e, st)
           | Inr False \<Rightarrow> (None, st)
           | Inr True \<Rightarrow>
               (case subscript0 sel of
                  Inl e \<Rightarrow> (Some e, st)
                | Inr x \<Rightarrow>
                    (case first_item (re_split CHR ''T'' (shown x)) of
                       Inl e \<Rightarrow> (Some e, st)
                     | Inr date \<Rightarrow>
                         (case label_value st of
                            None \<Rightarrow> (Some (NameError ''label''), st)
                          | Some v \<Rightarrow> (None, st\<lparr>label_value := Some date\<rparr>))))))"

text \<open>
  \<^verbatim>\<open>
  import ipywidgets as widgets
  col = random.choice(data.columns)
  source = data[col]
  axes = [Axis(scale=scales['x'], label='Date', num_ticks=int(len(source.index) / 2)), ...]
  line = Lines(x=source.index, y=source, scales=scales)
  selector = IndexSelector(scale=scales['x'], show_names=False, continuous_update=False)
  selector.observe(index_sel_dt_callback, ['selected'])
  fig = Figure(marks=[line], axes=axes, interaction=selector, title=f'Timeseries {col}', ...)
  label = widgets.Label()
  widgets.VBox(children=[fig, label])
  \<close>
  A new selector has nothing selected and a new label is empty.
\<close>

definition bqplot_cell :: "nat \<Rightarrow> 'a step" where
  "bqplot_cell r st =
     (case random_choice r (columns (data st)) of
        Inl e \<Rightarrow> (Some e, st\<lparr>widgets_bound := True\<rparr>)
      | Inr c \<Rightarrow>
          (let st1 = st\<lparr>widgets_bound := True, col := Some c\<rparr>
           in (case getitem (data st1) c of
                 Inl e \<Rightarrow> (Some e, st1)
               | Inr s \<Rightarrow>
                   (let st2 = st1\<lparr>source := Some s, selector_selected := Some None,
                                  label_value := Some []\<rparr>
                    in (None, emit (Bqplot_vbox (''Timeseries '' @ c) (pdobj_index s) s
                                      (length (pdobj_index s) div 2)) st2)))))"

text \<open>
  Brushing the chart sets \<open>selector.selected\<close>; when the value changes, the observer runs,
  and what it raises is the outcome of the event.
\<close>

definition brush :: "point list option \<Rightarrow> 'a step" where
  "brush sel st =
     (case selector_selected st of
        None \<Rightarrow> (None, st)
      | Some was \<Rightarrow>
          (if was = sel then (None, st)
           else index_sel_dt_callback \<lparr>property = ''selected'', old = was, new = sel\<rparr>
                  (st\<lparr>selector_selected := Some sel\<rparr>)))"

text \<open>
  \<^verbatim>\<open>
  def select_series(col):
      series = data[col]
      series.plot(figsize=fsize)
  \<close>
  \<open>col\<close> and \<open>series\<close> are local to the function.
\<close>

definition select_series :: "string \<Rightarrow> 'a step" where
  "select_series c st =
     (case getitem (data st) c of
        Inl e \<Rightarrow> (Some e, st)
      | Inr series \<Rightarrow>
          (case fsize st of
             None \<Rightarrow> (Some (NameError ''fsize''), st)
           | Some fs \<Rightarrow> (None, emit (Pandas_plot series fs) st)))"

text \<open>
  The widget library calls the function of an \<open>interact\<close> inside a handler of its own:
  when the call raises, the library prints the traceback in the output area and the exception
  goes no further.
\<close>

definition interactive_update :: "'a step \<Rightarrow> 'a step" where
  "interactive_update call st =
     (case call st of
        (Some e, st1) \<Rightarrow> (None, emit (Traceback e) st1)
      | (None, st1) \<Rightarrow> (None, st1))"

text \<open>
  \<open>widgets.interact\<close> with \<open>data.columns\<close>, or with a \<open>Dropdown\<close> over \<open>data.columns\<close>,
  as the value for \<open>col\<close>: it builds a dropdown over the column labels, shows it and has
  \<open>select_series\<close> called with its value, which is the first option, or \<open>None\<close> when there
  is no option; \<open>data[None]\<close> raises KeyError.
\<close>

definition interact :: "string \<Rightarrow> 'a step" where
  "interact description st =
     (let opts = columns (data st);
          st1 = emit (Interact_dropdown description opts)
                  (st\<lparr>dropdowns := dropdowns st @ [opts]\<rparr>)
      in (case opts of
            [] \<Rightarrow> interactive_update (\<lambda>s. (Some (KeyError ''None''), s)) st1
          | c # rest \<Rightarrow> interactive_update (select_series c) st1))"

text \<open>
  \<^verbatim>\<open>
  import ipywidgets as widgets
  @widgets.interact(col=data.columns)
  def select_series(col): ...
  \<close>
  The dropdown is described by the name of the argument.
\<close>

definition interact_cell :: "'a step" where
  "interact_cell st = interact ''col'' (st\<lparr>widgets_bound := True\<rparr>)"

text \<open>
  \<^verbatim>\<open>
  @widgets.interact(col=widgets.Dropdown(options=data.columns, description='Feature:'))
  def select_series(col): ...
  \<close>
  This cell does not import \<open>widgets\<close>.
\<close>

definition interact_dropdown_cell :: "'a step" where
  "interact_dropdown_cell st =
     (if widgets_bound st then interact ''Feature:'' st
      else (Some (NameError ''widgets''), st))"

text \<open>
  The call that the widget library makes when option \<open>i\<close> of dropdown \<open>k\<close> is chosen:
  \<open>select_series\<close> with that option.
\<close>

definition choose_option :: "nat \<Rightarrow> nat \<Rightarrow> 'a step" where
  "choose_option k i st =
     (if k < length (dropdowns st) \<and> i < length (dropdowns st ! k)
      then select_series (dropdowns st ! k ! i) st
      else (None, st))"

text \<open>
  \<^verbatim>\<open>
  import mywidgets
  tse = mywidgets.TSExplorer(data, layout=widgets.Layout(width='980px', height='490px'))
  tse
  \<close>
  The arguments are evaluated before the constructor is called.
\<close>

definition tse_new_cell :: "'a step" where
  "tse_new_cell st =
     (if widgets_bound st then
        (let t = \<lparr>wrapped = data st, layout = [(''width'', ''980px''), (''height'', ''490px'')]\<rparr>;
             st1 = st\<lparr>tse := Some t, tse_log := tse_log st @ [New ''TSExplorer'' [''layout'']]\<rparr>
         in (None, emit (Show_tse t) st1))
      else (Some (NameError ''widgets''), st))"

text \<open>\<^verbatim>\<open>tse.selected_data\<close>\<close>

definition tse_selected_cell :: "'a step" where
  "tse_selected_cell st =
     (case tse st of
        None \<Rightarrow> (Some (NameError ''tse''), st)
      | Some t \<Rightarrow>
          (None, emit Show_selected_data (st\<lparr>tse_log := tse_log st @ [Attr ''selected_data'']\<rparr>)))"

text \<open>\<^verbatim>\<open>tse\<close>\<close>

definition tse_show_cell :: "'a step" where
  "tse_show_cell st =
     (case tse st of
        None \<Rightarrow> (Some (NameError ''tse''), st)
      | Some t \<Rightarrow> (None, emit (Show_tse t) st))"

text \<open>
  \<^verbatim>\<open>
  tse.reset(selected_feature=True, selected_dates=True)
  tse.selected_data
  \<close>
\<close>

definition tse_reset_cell :: "'a step" where
  "tse_reset_cell st =
     (case tse st of
        None \<Rightarrow> (Some (NameError ''tse''), st)
      | Some t \<Rightarrow>
          (None, emit Show_selected_data
                   (st\<lparr>tse_log := tse_log st @
                          [Call ''reset'' [''selected_feature'', ''selected_dates''],
                           Attr ''selected_data'']\<rparr>)))"

text \<open>
  What can happen after the setup: a cell is run, with the random number it draws if it
  draws one, the chart is brushed, or an option of a dropdown is chosen (the call is made
  inside the handler of the widget library). The kernel keeps the state that a failing step
  leaves and goes on with the next.
\<close>

datatype event =
    Style
  | Matplotlib
  | Seaborn
  | Bokeh nat
  | Bqplot nat
  | Brush "point list option"
  | Interact
  | Interact_dropdown_cell
  | Choose nat nat
  | Tse_new
  | Tse_selected
  | Tse_show
  | Tse_reset

fun step :: "event \<Rightarrow> ('a::linorder) step" where
  "step Style st = style_cell st"
| "step Matplotlib st = matplotlib_cell st"
| "step Seaborn st = seaborn_cell st"
| "step (Bokeh r) st = bokeh_cell r st"
| "step (Bqplot r) st = bqplot_cell r st"
| "step (Brush sel) st = brush sel st"
| "step Interact st = interact_cell st"
| "step Interact_dropdown_cell st = interact_dropdown_cell st"
| "step (Choose k i) st = interactive_update (choose_option k i) st"
| "step Tse_new st = tse_new_cell st"
| "step Tse_selected st = tse_selected_cell st"
| "step Tse_show st = tse_show_cell st"
| "step Tse_reset st = tse_reset_cell st"

fun run :: "event list \<Rightarrow> ('a::linorder) nb \<Rightarrow> 'a nb" where
  "run [] st = st"
| "run (e # es) st = run es (snd (step e st))"

section \<open>Notions used in the statements\<close>

text \<open>Every column of a DataFrame has one value for each entry of the index.\<close>

definition wf_frame :: "'a frame \<Rightarrow> bool" where
  "wf_frame d = list_all (\<lambda>p. length (snd p) = length (index d)) (cols d)"


text \<open>The three ways in which the notebook reaches into \<open>tse\<close>.\<close>

definition tse_interfaces :: "access set" where
  "tse_interfaces =
     {New ''TSExplorer'' [''layout''],
      Attr ''selected_data'',
      Call ''reset'' [''selected_feature'', ''selected_dates'']}"

text \<open>One run of the setup cell, for the examples: the draw for column \<open>j\<close>, row \<open>i\<close>.\<close>

definition example_rnd :: "nat \<Rightarrow> nat \<Rightarrow> real" where
  "example_rnd j i = real (10 * j + i) / 4"

definition example_index :: "stamp list" where
  "example_index =
     [\<lparr>year = 2000, month = 1, day = 1\<rparr>, \<lparr>year = 2000, month = 2, day = 1\<rparr>,
      \<lparr>year = 2000, month = 3, day = 1\<rparr>, \<lparr>year = 2000, month = 4, day = 1\<rparr>,
      \<lparr>year = 2000, month = 5, day = 1\<rparr>, \<lparr>year = 2000, month = 6, day = 1\<rparr>,
      \<lparr>year = 2000, month = 7, day = 1\<rparr>, \<lparr>year = 2000, month = 8, day = 1\<rparr>,
      \<lparr>year = 2000, month = 9, day = 1\<rparr>, \<lparr>year = 2000, month = 10, day = 1\<rparr>,
      \<lparr>year = 2000, month = 11, day = 1\<rparr>, \<lparr>year = 2000, month = 12, day = 1\<rparr>]"

definition example_data :: "real frame" where
  "example_data =
     \<lparr>index = example_index,
      cols = [(''A'', map (\<lambda>i. Num (example_rnd 0 i)) [0, 1, 2, 3, 4, 5, 6, 7, 8, 9, 10, 11]),
              (''B'', map (\<lambda>i. Num (example_rnd 1 i)) [0, 1, 2, 3, 4, 5, 6, 7, 8, 9, 10, 11]),
              (''C'', map (\<lambda>i. Num (example_rnd 2 i)) [0, 1, 2, 3, 4, 5, 6, 7, 8, 9, 10, 11]),
              (''D'', map (\<lambda>i. Num (example_rnd 3 i)) [0, 1, 2, 3, 4, 5, 6, 7, 8, 9, 10, 11]),
              (''E'', map (\<lambda>i. Num (example_rnd 4 i)) [0, 1, 2, 3, 4, 5, 6, 7, 8, 9, 10, 11]),
              (''F'', map (\<lambda>i. Num (example_rnd 5 i)) [0, 1, 2, 3, 4, 5, 6, 7, 8, 9, 10, 11])]\<rparr>"

definition example_nb :: "real nb" where
  "example_nb =
     \<lparr>data = example_data, fsize = None, widgets_bound = False, col = None, source = None,
      selector_selected = None, label_value = None, dropdowns = [], tse = None,
      tse_log = [], outputs = [Print_shape (12, 6), Display_frame (head 6 example_data)]\<rparr>"

text \<open>A small series for the examples.\<close>

definition example_series :: "real series" where
  "example_series =
     \<lparr>sname = Some ''A'',
      sindex = [\<lparr>year = 2000, month = 1, day = 1\<rparr>, \<lparr>year = 2000, month = 2, day = 1\<rparr>,
                \<lparr>year = 2000, month = 3, day = 1\<rparr>],
      svalues = [Num 3, Num 1, Num 2]\<rparr>"

definition empty_series :: "real series" where
  "empty_series = \<lparr>sname = None, sindex = [], svalues = []\<rparr>"

text \<open>Two points of a selection, as numpy shows a \<open>datetime64\<close>.\<close>

definition march :: point where
  "march = \<lparr>shown = ''2000-03-01T00:00:00.000'', nonzero = True\<rparr>"

definition april :: point where
  "april = \<lparr>shown = ''2000-04-01T00:00:00.000'', nonzero = True\<rparr>"

text \<open>The example after the matplotlib cell, and after the first \<open>interact\<close> cell as well.\<close>

definition example_plotted :: "real nb" where
  "example_plotted = snd (matplotlib_cell example_nb)"




section \<open>The styling functions\<close>

lemma highlight_Inr:
  "func s = Inr m \<Longrightarrow>
   highlight s func color =
     Inr (map (\<lambda>v. if py_eq v m then ''background-color: '' @ color else '''') (svalues s))"
  by (simp add: highlight_def)

lemma highlight_Inl: "func s = Inl e \<Longrightarrow> highlight s func color = Inl e"
  by (simp add: highlight_def)

lemma scan_mem: "foldl (\<lambda>best item. if P item best then item else best) x xs \<in> set (x # xs)"
  by (induction xs arbitrary: x) auto

lemma py_min_mem: "py_min s = Inr m \<Longrightarrow> m \<in> set (svalues s)"
  using scan_mem[of "py_lt"] by (auto simp: py_min_def split: list.splits)

lemma py_max_mem: "py_max s = Inr m \<Longrightarrow> m \<in> set (svalues s)"
  using scan_mem[of "py_gt"] by (auto simp: py_max_def split: list.splits)

lemma py_eq_refl: "v \<noteq> NaN \<Longrightarrow> py_eq v v"
  by (cases v) auto

lemma py_min_total: "svalues s \<noteq> [] \<Longrightarrow> \<exists>m. py_min s = Inr m"
  by (auto simp: py_min_def split: list.splits)

lemma py_max_total: "svalues s \<noteq> [] \<Longrightarrow> \<exists>m. py_max s = Inr m"
  by (auto simp: py_max_def split: list.splits)

lemma py_min_empty: "svalues s = [] \<Longrightarrow> py_min s = Inl ValueError"
  by (simp add: py_min_def)

lemma py_max_empty: "svalues s = [] \<Longrightarrow> py_max s = Inl ValueError"
  by (simp add: py_max_def)

lemma highlight_marks:
  assumes "func s = Inr m" "m \<in> set (svalues s)" "m \<noteq> NaN"
  shows "\<exists>out. highlight s func color = Inr out \<and> (''background-color: '' @ color) \<in> set out"
proof -
  have "py_eq m m" using assms(3) by (rule py_eq_refl)
  with assms(2) have "(''background-color: '' @ color) \<in>
     set (map (\<lambda>v. if py_eq v m then ''background-color: '' @ color else '''') (svalues s))"
    by force
  with highlight_Inr[of func s m color] assms(1) show ?thesis by simp
qed

text \<open>On numbers the scans of \<open>min\<close> and \<open>max\<close> find the least and the greatest value.\<close>

lemma scan_min_fold:
  "foldl (\<lambda>best item. if py_lt item best then item else best) (Num x) (map Num xs)
     = Num (fold min xs x)"
  by (induction xs arbitrary: x) (auto simp: min_def)

lemma scan_max_fold:
  "foldl (\<lambda>best item. if py_gt item best then item else best) (Num x) (map Num xs)
     = Num (fold max xs x)"
  by (induction xs arbitrary: x) (auto simp: max_def)

lemma py_min_Num:
  "svalues s = map Num xs \<Longrightarrow> xs \<noteq> [] \<Longrightarrow> py_min s = Inr (Num (Min (set xs)))"
  by (cases xs) (simp_all add: py_min_def scan_min_fold Min.set_eq_fold [symmetric])

lemma py_max_Num:
  "svalues s = map Num xs \<Longrightarrow> xs \<noteq> [] \<Longrightarrow> py_max s = Inr (Num (Max (set xs)))"
  by (cases xs) (simp_all add: py_max_def scan_max_fold Max.set_eq_fold [symmetric])

lemma apply_columns_Inr:
  "\<forall>s \<in> set ss. \<exists>r. f s = Inr r \<Longrightarrow>
   \<exists>rs. apply_columns f ss = Inr rs \<and> length rs = length ss \<and>
        (\<forall>j < length ss. f (ss ! j) = Inr (rs ! j))"
proof (induction ss)
  case Nil
  show ?case by simp
next
  case (Cons s ss)
  then obtain r where r: "f s = Inr r" by auto
  from Cons obtain rs where rs: "apply_columns f ss = Inr rs" "length rs = length ss"
    "\<forall>j < length ss. f (ss ! j) = Inr (rs ! j)" by auto
  have "\<forall>j < length (s # ss). f ((s # ss) ! j) = Inr ((r # rs) ! j)"
    using r rs(3) by (auto simp: nth_Cons split: nat.splits)
  with r rs show ?case by simp
qed

text \<open>
  One styling pass over a well-formed frame with unique labels, for a selector that returns
  a value on every series that is not empty.
\<close>

lemma style_apply_highlight:
  assumes wf: "wf_frame d"
    and uniq: "distinct (index d)" "distinct (columns d)"
    and total: "\<And>s. svalues s \<noteq> [] \<Longrightarrow> \<exists>m. func s = Inr m"
  shows "\<exists>rs. style_apply (\<lambda>s. highlight s func color) d = Inr rs \<and>
           length rs = length (cols d) \<and>
           (\<forall>j < length (cols d). \<forall>i < length (index d).
              \<exists>m. func (column_series d (cols d ! j)) = Inr m \<and>
                  rs ! j ! i = (if py_eq (snd (cols d ! j) ! i) m
                                then ''background-color: '' @ color else ''''))"
proof (cases "index d = [] \<or> cols d = []")
  case True
  then show ?thesis using uniq by (auto simp: style_apply_def columns_def)
next
  case False
  let ?f = "\<lambda>s. highlight s func color"
  let ?ss = "map (column_series d) (cols d)"
  have len: "\<And>p. p \<in> set (cols d) \<Longrightarrow> length (snd p) = length (index d)"
    using wf by (simp add: wf_frame_def list_all_iff)
  have ne: "\<And>p. p \<in> set (cols d) \<Longrightarrow> svalues (column_series d p) \<noteq> []"
  proof -
    fix p assume "p \<in> set (cols d)"
    then have "length (snd p) = length (index d)" by (rule len)
    with False show "svalues (column_series d p) \<noteq> []"
      by (auto simp: column_series_def)
  qed
  have "\<forall>s \<in> set ?ss. \<exists>r. ?f s = Inr r"
  proof
    fix s assume "s \<in> set ?ss"
    then obtain p where p: "p \<in> set (cols d)" "s = column_series d p" by auto
    from total[OF ne[OF p(1)]] obtain m where "func s = Inr m" using p(2) by auto
    then show "\<exists>r. ?f s = Inr r" by (simp add: highlight_Inr)
  qed
  from apply_columns_Inr[OF this] obtain rs where rs:
    "apply_columns ?f ?ss = Inr rs" "length rs = length ?ss"
    "\<forall>j < length ?ss. ?f (?ss ! j) = Inr (rs ! j)" by blast
  have cells: "\<forall>j < length (cols d). \<forall>i < length (index d).
              \<exists>m. func (column_series d (cols d ! j)) = Inr m \<and>
                  rs ! j ! i = (if py_eq (snd (cols d ! j) ! i) m
                                then ''background-color: '' @ color else '''')"
  proof (intro allI impI)
    fix j i assume j: "j < length (cols d)" and i: "i < length (index d)"
    let ?p = "cols d ! j"
    have mem: "?p \<in> set (cols d)" using j by simp
    from total[OF ne[OF mem]] obtain m where m: "func (column_series d ?p) = Inr m" by auto
    have "?f (?ss ! j) = Inr (rs ! j)" using rs(3) j by simp
    then have "rs ! j = map (\<lambda>v. if py_eq v m then ''background-color: '' @ color else '''')
                            (svalues (column_series d ?p))"
      using j m by (simp add: highlight_Inr)
    moreover have "i < length (snd ?p)" using len[OF mem] i by simp
    ultimately have "rs ! j ! i = (if py_eq (snd ?p ! i) m
                                   then ''background-color: '' @ color else '''')"
      by (simp add: column_series_def)
    with m show "\<exists>m. func (column_series d ?p) = Inr m \<and>
                  rs ! j ! i = (if py_eq (snd ?p ! i) m
                                then ''background-color: '' @ color else '''')"
      by blast
  qed
  from False rs(1) uniq have "style_apply ?f d = Inr rs"
    by (simp add: style_apply_def columns_def)
  with rs(2) cells show ?thesis by simp
qed

lemma hmin_eq: "hmin = (\<lambda>s. highlight s py_min ''red'')"
  by (rule ext) (simp add: hmin_def)

lemma hmax_eq: "hmax = (\<lambda>s. highlight s py_max ''lime'')"
  by (rule ext) (simp add: hmax_def)

text \<open>The styling cell on a well-formed frame with unique labels.\<close>

lemma style_cell_marks:
  fixes st :: "('a::linorder) nb"
  assumes wf: "wf_frame (data st)"
    and uniq: "distinct (index (data st))" "distinct (columns (data st))"
  shows "\<exists>reds limes.
           style_cell st = (None, emit (Display_styled (data st) reds limes) st) \<and>
           length reds = length (cols (data st)) \<and> length limes = length (cols (data st)) \<and>
           (\<forall>j < length (cols (data st)). \<forall>i < length (index (data st)).
              \<exists>lo hi.
                py_min (column_series (data st) (cols (data st) ! j)) = Inr lo \<and>
                py_max (column_series (data st) (cols (data st) ! j)) = Inr hi \<and>
                reds ! j ! i = (if py_eq (snd (cols (data st) ! j) ! i) lo
                                then ''background-color: red'' else '''') \<and>
                limes ! j ! i = (if py_eq (snd (cols (data st) ! j) ! i) hi
                                 then ''background-color: lime'' else ''''))"
proof -
  let ?d = "data st"
  from style_apply_highlight[OF wf uniq, of py_min "''red''"] py_min_total
  obtain reds where reds: "style_apply hmin ?d = Inr reds" "length reds = length (cols ?d)"
    "\<forall>j < length (cols ?d). \<forall>i < length (index ?d).
        \<exists>m. py_min (column_series ?d (cols ?d ! j)) = Inr m \<and>
            reds ! j ! i = (if py_eq (snd (cols ?d ! j) ! i) m
                            then ''background-color: '' @ ''red'' else '''')"
    unfolding hmin_eq by blast
  from style_apply_highlight[OF wf uniq, of py_max "''lime''"] py_max_total
  obtain limes where limes: "style_apply hmax ?d = Inr limes" "length limes = length (cols ?d)"
    "\<forall>j < length (cols ?d). \<forall>i < length (index ?d).
        \<exists>m. py_max (column_series ?d (cols ?d ! j)) = Inr m \<and>
            limes ! j ! i = (if py_eq (snd (cols ?d ! j) ! i) m
                             then ''background-color: '' @ ''lime'' else '''')"
    unfolding hmax_eq by blast
  have cell: "style_cell st = (None, emit (Display_styled ?d reds limes) st)"
    using reds(1) limes(1) by (simp add: style_cell_def)
  have "\<forall>j < length (cols ?d). \<forall>i < length (index ?d).
              \<exists>lo hi.
                py_min (column_series ?d (cols ?d ! j)) = Inr lo \<and>
                py_max (column_series ?d (cols ?d ! j)) = Inr hi \<and>
                reds ! j ! i = (if py_eq (snd (cols ?d ! j) ! i) lo
                                then ''background-color: red'' else '''') \<and>
                limes ! j ! i = (if py_eq (snd (cols ?d ! j) ! i) hi
                                 then ''background-color: lime'' else '''')"
  proof (intro allI impI)
    fix j i assume ji: "j < length (cols ?d)" "i < length (index ?d)"
    from reds(3) ji obtain lo where lo: "py_min (column_series ?d (cols ?d ! j)) = Inr lo"
      "reds ! j ! i = (if py_eq (snd (cols ?d ! j) ! i) lo
                       then ''background-color: '' @ ''red'' else '''')" by blast
    from limes(3) ji obtain hi where hi: "py_max (column_series ?d (cols ?d ! j)) = Inr hi"
      "limes ! j ! i = (if py_eq (snd (cols ?d ! j) ! i) hi
                        then ''background-color: '' @ ''lime'' else '''')" by blast
    from lo hi show "\<exists>lo hi.
                py_min (column_series ?d (cols ?d ! j)) = Inr lo \<and>
                py_max (column_series ?d (cols ?d ! j)) = Inr hi \<and>
                reds ! j ! i = (if py_eq (snd (cols ?d ! j) ! i) lo
                                then ''background-color: red'' else '''') \<and>
                limes ! j ! i = (if py_eq (snd (cols ?d ! j) ! i) hi
                                 then ''background-color: lime'' else '''')"
      by simp
  qed
  with cell reds(2) limes(2)
  show ?thesis
    by blast
qed

section \<open>The frame of the setup cell\<close>

lemma getCols_K: "getCols K = [''A'', ''B'', ''C'', ''D'', ''E'', ''F'']"
  by (simp add: getCols_def K_def)

lemma makeDateIndex_N:
  "makeDateIndex N = Inr (map (\<lambda>i. \<lparr>year = 2000, month = Suc i, day = 1\<rparr>) [0..<12])"
  by (simp add: makeDateIndex_def N_def cong: map_cong)

lemma makeTimeDataFrame_N_K:
  "makeTimeDataFrame N K rnd =
     Inr \<lparr>index = map (\<lambda>i. \<lparr>year = 2000, month = Suc i, day = 1\<rparr>) [0..<12],
          cols = map (\<lambda>j. (getCols K ! j, map (\<lambda>i. Num (rnd j i)) [0..<12])) [0..<6]\<rparr>"
proof -
  have l: "length (getCols K) = 6"
    by (simp add: getCols_def K_def)
  have k: "K \<noteq> 0" by (simp add: K_def)
  have n: "[0..<N] = [0..<12]" by (simp add: N_def)
  show ?thesis
    unfolding makeTimeDataFrame_def makeDateIndex_N l n
    using k by simp
qed

lemma setup_cell_data:
  "setup_cell rnd = Inr st0 \<Longrightarrow>
   data st0 =
     \<lparr>index = map (\<lambda>i. \<lparr>year = 2000, month = Suc i, day = 1\<rparr>) [0..<12],
      cols = map (\<lambda>j. (getCols K ! j, map (\<lambda>i. Num (rnd j i)) [0..<12])) [0..<6]\<rparr>"
  by (auto simp: setup_cell_def makeTimeDataFrame_N_K)

lemma upt_6: "[0..<6] = [0, 1, 2, 3, 4, 5]"
  by (simp add: upt_rec)

lemma setup_cell_columns:
  "setup_cell rnd = Inr st0 \<Longrightarrow> columns (data st0) = [''A'', ''B'', ''C'', ''D'', ''E'', ''F'']"
  by (simp add: setup_cell_data columns_def upt_6 getCols_K)

lemma makeTimeDataFrame_example: "makeTimeDataFrame N K example_rnd = Inr example_data"
  unfolding makeTimeDataFrame_N_K
  by (simp add: example_data_def example_index_def upt_rec example_rnd_def getCols_K)

lemma shape_example: "shape example_data = (12, 6)"
  by (simp add: shape_def example_data_def example_index_def)

lemma setup_cell_example: "setup_cell example_rnd = Inr example_nb"
  by (simp add: setup_cell_def makeTimeDataFrame_example example_nb_def shape_example)

text \<open>
  C4. The setup cell always succeeds. Its frame has 12 rows and 6 columns: the index is the
  first day of the twelve months of 2000, the columns are named A to F, and the value in
  column \<open>j\<close>, row \<open>i\<close> is the number drawn for it. Every column has one value for each row.
\<close>

theorem setup_cell_frame:
  "\<exists>st0. setup_cell rnd = Inr st0
     \<and> shape (data st0) = (12, 6)
     \<and> index (data st0) = map (\<lambda>i. \<lparr>year = 2000, month = Suc i, day = 1\<rparr>) [0..<12]
     \<and> columns (data st0) = [''A'', ''B'', ''C'', ''D'', ''E'', ''F'']
     \<and> (\<forall>j < 6. \<forall>i < 12. snd (cols (data st0) ! j) ! i = Num (rnd j i))
     \<and> wf_frame (data st0)
     \<and> outputs st0 = [Print_shape (12, 6), Display_frame (head 6 (data st0))]"
proof -
  obtain st0 where st0: "setup_cell rnd = Inr st0"
    by (simp add: setup_cell_def makeTimeDataFrame_N_K)
  note d = setup_cell_data[OF st0]
  have 1: "shape (data st0) = (12, 6)" by (simp add: d shape_def)
  have 2: "index (data st0) = map (\<lambda>i. \<lparr>year = 2000, month = Suc i, day = 1\<rparr>) [0..<12]"
    by (simp add: d)
  have 3: "columns (data st0) = [''A'', ''B'', ''C'', ''D'', ''E'', ''F'']"
    using st0 by (rule setup_cell_columns)
  have 4: "\<forall>j < 6. \<forall>i < 12. snd (cols (data st0) ! j) ! i = Num (rnd j i)"
    by (simp add: d)
  have 5: "wf_frame (data st0)" by (simp add: d wf_frame_def list_all_iff)
  have 6: "outputs st0 = [Print_shape (12, 6), Display_frame (head 6 (data st0))]"
    using st0 1 by (auto simp: setup_cell_def makeTimeDataFrame_N_K shape_def)
  from st0 1 2 3 4 5 6 show ?thesis by blast
qed

theorem setup_cell_frame_witness:
  "setup_cell example_rnd = Inr example_nb \<and> shape (data example_nb) = (12, 6)"
proof -
  from setup_cell_frame[of example_rnd] obtain st0 where
    st0: "setup_cell example_rnd = Inr st0" and s: "shape (data st0) = (12, 6)" by blast
  from st0 have "st0 = example_nb" by (simp add: setup_cell_example)
  with st0 s show ?thesis by simp
qed

section \<open>What the steps leave alone\<close>

lemma style_cell_data: "data (snd (style_cell st)) = data st"
  by (simp add: style_cell_def emit_def split: sum.splits)

lemma matplotlib_cell_data: "data (snd (matplotlib_cell st)) = data st"
  by (simp add: matplotlib_cell_def emit_def Let_def)

lemma seaborn_cell_data: "data (snd (seaborn_cell st)) = data st"
  by (simp add: seaborn_cell_def emit_def split: option.splits)

lemma bokeh_cell_data: "data (snd (bokeh_cell r st)) = data st"
  by (simp add: bokeh_cell_def emit_def Let_def split: sum.splits)

lemma bqplot_cell_data: "data (snd (bqplot_cell r st)) = data st"
  by (simp add: bqplot_cell_def emit_def Let_def split: sum.splits)

lemma callback_data: "data (snd (index_sel_dt_callback ch st)) = data st"
  by (simp add: index_sel_dt_callback_def split: sum.splits option.splits bool.splits)

lemma brush_data: "data (snd (brush sel st)) = data st"
  by (simp add: brush_def callback_data split: option.splits)

lemma select_series_data: "data (snd (select_series c st)) = data st"
  by (simp add: select_series_def emit_def split: sum.splits option.splits)

lemma interactive_update_data:
  "data (snd (call st)) = data st \<Longrightarrow> data (snd (interactive_update call st)) = data st"
  by (cases "call st") (auto simp: interactive_update_def emit_def split: option.splits)

lemma interact_data: "data (snd (interact d st)) = data st"
  by (simp add: interact_def emit_def Let_def interactive_update_data select_series_data
           split: list.splits)

lemma select_series_widgets_bound:
  "widgets_bound (snd (select_series c st)) = widgets_bound st"
  by (simp add: select_series_def emit_def split: sum.splits option.splits)

lemma interactive_update_widgets_bound:
  "widgets_bound (snd (call st)) = widgets_bound st \<Longrightarrow>
   widgets_bound (snd (interactive_update call st)) = widgets_bound st"
  by (cases "call st") (auto simp: interactive_update_def emit_def split: option.splits)

lemma interact_widgets_bound: "widgets_bound (snd (interact d st)) = widgets_bound st"
  by (simp add: interact_def emit_def Let_def interactive_update_widgets_bound
                select_series_widgets_bound split: list.splits)

lemma interact_cell_data: "data (snd (interact_cell st)) = data st"
  by (simp add: interact_cell_def interact_data)

lemma interact_dropdown_cell_data: "data (snd (interact_dropdown_cell st)) = data st"
  by (simp add: interact_dropdown_cell_def interact_data)

lemma choose_option_data: "data (snd (choose_option k i st)) = data st"
  by (simp add: choose_option_def select_series_data)

lemma tse_new_cell_data: "data (snd (tse_new_cell st)) = data st"
  by (simp add: tse_new_cell_def emit_def Let_def)

lemma tse_selected_cell_data: "data (snd (tse_selected_cell st)) = data st"
  by (simp add: tse_selected_cell_def emit_def split: option.splits)

lemma tse_show_cell_data: "data (snd (tse_show_cell st)) = data st"
  by (simp add: tse_show_cell_def emit_def split: option.splits)

lemma tse_reset_cell_data: "data (snd (tse_reset_cell st)) = data st"
  by (simp add: tse_reset_cell_def emit_def split: option.splits)

lemmas cell_data =
  style_cell_data matplotlib_cell_data seaborn_cell_data bokeh_cell_data bqplot_cell_data
  brush_data interact_cell_data interact_dropdown_cell_data choose_option_data tse_new_cell_data tse_selected_cell_data
  tse_show_cell_data tse_reset_cell_data

lemma step_data: "data (snd (step e st)) = data st"
  by (cases e) (simp_all add: cell_data interactive_update_data)

lemma run_data: "data (run es st) = data st"
  by (induction es arbitrary: st) (simp_all add: step_data)

section \<open>The brush callback\<close>

lemma re_split_first: "first_item (re_split c x) = Inr (takeWhile (\<lambda>a. a \<noteq> c) x)"
  by (induction x) (auto simp: first_item_def split: list.splits)

text \<open>
  C8, as the code has it. With \<open>selector\<close> bound, \<open>index_sel_dt_callback\<close> returns without
  an exception and leaves the whole state as it is when \<open>selector.selected\<close> is \<open>None\<close>, is
  empty, or holds a single element that is false. When it holds a single element that is
  true and \<open>label\<close> is bound, the callback sets \<open>label.value\<close> to the part of the \<open>str\<close> of
  the element before the first \<open>T\<close> and changes nothing else. When it holds more than one
  element, the test \<open>if selector.selected:\<close> raises ValueError and nothing is changed. The
  event \<open>change\<close> plays no part.
\<close>

theorem index_sel_dt_callback_sets_label:
  "(selector_selected st = Some None \<or> selector_selected st = Some (Some []) \<longrightarrow>
      index_sel_dt_callback ch st = (None, st))
   \<and> (selector_selected st = Some (Some [x]) \<and> \<not> nonzero x \<longrightarrow>
        index_sel_dt_callback ch st = (None, st))
   \<and> (selector_selected st = Some (Some [x]) \<and> nonzero x \<and> label_value st = Some v \<longrightarrow>
        index_sel_dt_callback ch st =
          (None, st\<lparr>label_value := Some (takeWhile (\<lambda>a. a \<noteq> CHR ''T'') (shown x))\<rparr>))
   \<and> (selector_selected st = Some (Some (x # y # zs)) \<longrightarrow>
        index_sel_dt_callback ch st = (Some ValueError, st))"
proof (intro conjI impI)
  assume "selector_selected st = Some None \<or> selector_selected st = Some (Some [])"
  then show "index_sel_dt_callback ch st = (None, st)"
    by (auto simp: index_sel_dt_callback_def truthy_def)
next
  assume "selector_selected st = Some (Some [x]) \<and> \<not> nonzero x"
  then show "index_sel_dt_callback ch st = (None, st)"
    by (simp add: index_sel_dt_callback_def truthy_def)
next
  assume a: "selector_selected st = Some (Some [x]) \<and> nonzero x \<and> label_value st = Some v"
  have "subscript0 (Some [x]) = Inr x"
    by (simp add: subscript0_def first_item_def)
  with a show "index_sel_dt_callback ch st =
          (None, st\<lparr>label_value := Some (takeWhile (\<lambda>a. a \<noteq> CHR ''T'') (shown x))\<rparr>)"
    by (simp add: index_sel_dt_callback_def truthy_def re_split_first)
next
  assume "selector_selected st = Some (Some (x # y # zs))"
  then show "index_sel_dt_callback ch st = (Some ValueError, st)"
    by (simp add: index_sel_dt_callback_def truthy_def)
qed

theorem index_sel_dt_callback_sets_label_witness:
  "index_sel_dt_callback \<lparr>property = ''selected'', old = None, new = Some []\<rparr>
     (example_nb\<lparr>selector_selected := Some (Some []), label_value := Some ''2000-01-05''\<rparr>)
     = (None, example_nb\<lparr>selector_selected := Some (Some []), label_value := Some ''2000-01-05''\<rparr>)
   \<and> \<not> nonzero (march\<lparr>nonzero := False\<rparr>)
   \<and> index_sel_dt_callback \<lparr>property = ''selected'', old = None, new = None\<rparr>
         (example_nb\<lparr>selector_selected := Some (Some [march\<lparr>nonzero := False\<rparr>]),
                     label_value := Some ''''\<rparr>)
       = (None, example_nb\<lparr>selector_selected := Some (Some [march\<lparr>nonzero := False\<rparr>]),
                           label_value := Some ''''\<rparr>)
   \<and> nonzero march
   \<and> index_sel_dt_callback \<lparr>property = ''selected'', old = None, new = Some [march]\<rparr>
         (example_nb\<lparr>selector_selected := Some (Some [march]), label_value := Some ''''\<rparr>)
       = (None, example_nb\<lparr>selector_selected := Some (Some [march]),
                           label_value := Some ''2000-03-01''\<rparr>)
   \<and> index_sel_dt_callback \<lparr>property = ''selected'', old = None, new = Some [march, april]\<rparr>
         (example_nb\<lparr>selector_selected := Some (Some [march, april]), label_value := Some ''''\<rparr>)
       = (Some ValueError,
          example_nb\<lparr>selector_selected := Some (Some [march, april]), label_value := Some ''''\<rparr>)"
proof -
  let ?s1 = "example_nb\<lparr>selector_selected := Some (Some []), label_value := Some ''2000-01-05''\<rparr>"
  let ?s2 = "example_nb\<lparr>selector_selected := Some (Some [march]), label_value := Some ''''\<rparr>"
  let ?s3 = "example_nb\<lparr>selector_selected := Some (Some [march\<lparr>nonzero := False\<rparr>]),
                        label_value := Some ''''\<rparr>"
  let ?s4 = "example_nb\<lparr>selector_selected := Some (Some [march, april]),
                        label_value := Some ''''\<rparr>"
  have n0: "\<not> nonzero (march\<lparr>nonzero := False\<rparr>)" by simp
  have n1: "nonzero march" by (simp add: march_def)
  have a: "selector_selected ?s1 = Some (Some [])" by simp
  have b: "selector_selected ?s2 = Some (Some [march]) \<and> nonzero march
           \<and> label_value ?s2 = Some ''''" using n1 by simp
  have c: "selector_selected ?s3 = Some (Some [march\<lparr>nonzero := False\<rparr>])
           \<and> \<not> nonzero (march\<lparr>nonzero := False\<rparr>)" by simp
  have d: "selector_selected ?s4 = Some (Some (march # april # []))" by simp
  from index_sel_dt_callback_sets_label
         [where st = ?s1 and ch = "\<lparr>property = ''selected'', old = None, new = Some []\<rparr>"] a
  have 1: "index_sel_dt_callback \<lparr>property = ''selected'', old = None, new = Some []\<rparr> ?s1
             = (None, ?s1)" by blast
  from index_sel_dt_callback_sets_label
         [where st = ?s2 and x = march and v = "[]" and
            ch = "\<lparr>property = ''selected'', old = None, new = Some [march]\<rparr>"] b
  have "index_sel_dt_callback \<lparr>property = ''selected'', old = None, new = Some [march]\<rparr> ?s2
             = (None, ?s2\<lparr>label_value :=
                   Some (takeWhile (\<lambda>a. a \<noteq> CHR ''T'') (shown march))\<rparr>)"
    by blast
  then have 2: "index_sel_dt_callback \<lparr>property = ''selected'', old = None, new = Some [march]\<rparr> ?s2
             = (None, example_nb\<lparr>selector_selected := Some (Some [march]),
                           label_value := Some ''2000-03-01''\<rparr>)"
    by (simp add: march_def)
  from index_sel_dt_callback_sets_label
         [where st = ?s3 and x = "march\<lparr>nonzero := False\<rparr>" and
            ch = "\<lparr>property = ''selected'', old = None, new = None\<rparr>"] c
  have 3: "index_sel_dt_callback \<lparr>property = ''selected'', old = None, new = None\<rparr> ?s3
             = (None, ?s3)" by blast
  from index_sel_dt_callback_sets_label
         [where st = ?s4 and x = march and y = april and zs = "[]" and
            ch = "\<lparr>property = ''selected'', old = None, new = Some [march, april]\<rparr>"] d
  have 4: "index_sel_dt_callback
             \<lparr>property = ''selected'', old = None, new = Some [march, april]\<rparr> ?s4
             = (Some ValueError, ?s4)" by blast
  from n0 n1 1 2 3 4 show ?thesis by simp
qed

text \<open>
  The claim as the spec words it, "otherwise sets label.value", fails on a selection of two
  elements: the truth test raises and the label stays as it was.
\<close>

theorem index_sel_dt_callback_counterexample:
  "index_sel_dt_callback \<lparr>property = ''selected'', old = None, new = Some [march, april]\<rparr>
     (example_nb\<lparr>selector_selected := Some (Some [march, april]), label_value := Some ''''\<rparr>)
   = (Some ValueError,
      example_nb\<lparr>selector_selected := Some (Some [march, april]), label_value := Some ''''\<rparr>)"
  by (simp add: index_sel_dt_callback_def truthy_def)

section \<open>The dropdown\<close>

lemma filter_fst_distinct:
  "distinct (map fst ps) \<Longrightarrow> (c, vs) \<in> set ps \<Longrightarrow> filter (\<lambda>p. fst p = c) ps = [(c, vs)]"
proof (induction ps)
  case Nil
  then show ?case by simp
next
  case (Cons p ps)
  show ?case
  proof (cases "fst p = c")
    case True
    have nin: "c \<notin> fst ` set ps" using Cons.prems(1) True by simp
    have "(c, vs) \<notin> set ps"
    proof
      assume "(c, vs) \<in> set ps"
      then have "fst (c, vs) \<in> fst ` set ps" by (rule imageI)
      with nin show False by simp
    qed
    with Cons.prems(2) have "p = (c, vs)" by simp
    moreover have "filter (\<lambda>q. fst q = c) ps = []"
    proof -
      have "\<And>q. q \<in> set ps \<Longrightarrow> fst q \<noteq> c"
      proof
        fix q assume "q \<in> set ps" "fst q = c"
        then have "c \<in> fst ` set ps" by (metis imageI)
        with nin show False by simp
      qed
      then show ?thesis by (simp add: filter_empty_conv)
    qed
    ultimately show ?thesis by simp
  next
    case False
    with Cons show ?thesis by auto
  qed
qed

lemma getitem_column:
  "distinct (columns d) \<Longrightarrow> (c, vs) \<in> set (cols d) \<Longrightarrow>
   getitem d c = Inr (Ser \<lparr>sname = Some c, sindex = index d, svalues = vs\<rparr>)"
  by (simp add: getitem_def columns_def filter_fst_distinct column_series_def)

lemma getitem_list_column:
  "distinct (columns d) \<Longrightarrow> (c, vs) \<in> set (cols d) \<Longrightarrow>
   getitem_list d [c] = Inr \<lparr>index = index d, cols = [(c, vs)]\<rparr>"
  by (simp add: getitem_list_def columns_def filter_fst_distinct)

lemma column_of_label: "c \<in> set (columns d) \<Longrightarrow> \<exists>vs. (c, vs) \<in> set (cols d)"
  by (auto simp: columns_def)








lemma example_plotted_simps:
  "data example_plotted = example_data" "fsize example_plotted = Some (18, 5)"
  "dropdowns example_plotted = []"
  by (simp_all add: example_plotted_def matplotlib_cell_def emit_def example_nb_def Let_def
                    example_data_def example_index_def)

lemma example_columns: "columns example_data = [''A'', ''B'', ''C'', ''D'', ''E'', ''F'']"
  by (simp add: columns_def example_data_def)


text \<open>
  C2. No step after the setup changes the dataframe: not a cell, not the brush callback,
  not a choice in a dropdown, and so no sequence of them. The function \<open>select_series\<close>
  and the callback \<open>index_sel_dt_callback\<close> leave it as it is, and the \<open>TSExplorer\<close> that
  the construction cell binds (once \<open>widgets\<close> is imported) wraps the frame unchanged.
\<close>

theorem dataframe_never_mutated:
  "data (snd (step e st)) = data st
   \<and> data (run es st) = data st
   \<and> data (snd (index_sel_dt_callback ch st)) = data st
   \<and> data (snd (select_series c st)) = data st
   \<and> data (snd (tse_new_cell st)) = data st
   \<and> (widgets_bound st \<longrightarrow>
        (\<exists>t. tse_new_cell st = (None, emit (Show_tse t) (st\<lparr>tse := Some t,
                 tse_log := tse_log st @ [New ''TSExplorer'' [''layout'']]\<rparr>)) \<and>
             wrapped t = data st))"
proof (intro conjI impI)
  show "data (snd (step e st)) = data st" by (rule step_data)
next
  show "data (run es st) = data st" by (rule run_data)
next
  show "data (snd (index_sel_dt_callback ch st)) = data st" by (rule callback_data)
next
  show "data (snd (select_series c st)) = data st" by (rule select_series_data)
next
  show "data (snd (tse_new_cell st)) = data st" by (rule tse_new_cell_data)
next
  assume w: "widgets_bound st"
  let ?t = "\<lparr>wrapped = data st, layout = [(''width'', ''980px''), (''height'', ''490px'')]\<rparr>"
  have "tse_new_cell st = (None, emit (Show_tse ?t) (st\<lparr>tse := Some ?t,
                 tse_log := tse_log st @ [New ''TSExplorer'' [''layout'']]\<rparr>))"
    using w by (simp add: tse_new_cell_def Let_def)
  moreover have "wrapped ?t = data st" by simp
  ultimately show "\<exists>t. tse_new_cell st = (None, emit (Show_tse t) (st\<lparr>tse := Some t,
                 tse_log := tse_log st @ [New ''TSExplorer'' [''layout'']]\<rparr>)) \<and>
             wrapped t = data st"
    by blast
qed

theorem dataframe_never_mutated_witness:
  "widgets_bound (snd (interact_cell example_plotted))
   \<and> data (snd (tse_new_cell (snd (interact_cell example_plotted)))) = example_data
   \<and> data (run [Style, Matplotlib, Seaborn, Bokeh 3, Bqplot 4,
              Brush (Some [march]), Interact, Interact_dropdown_cell,
              Choose 0 2, Tse_new, Tse_selected, Tse_show, Tse_reset] example_nb)
     = example_data"
proof -
  have w: "widgets_bound (snd (interact_cell example_plotted))"
    by (simp add: interact_cell_def interact_widgets_bound)
  from dataframe_never_mutated [where st = "snd (interact_cell example_plotted)"]
  have a: "data (snd (tse_new_cell (snd (interact_cell example_plotted)))) = example_data"
    by (simp add: interact_cell_data example_plotted_simps)
  from dataframe_never_mutated
          [where st = example_nb and
             es = "[Style, Matplotlib, Seaborn, Bokeh 3, Bqplot 4,
                    Brush (Some [march]), Interact, Interact_dropdown_cell,
                    Choose 0 2, Tse_new, Tse_selected, Tse_show, Tse_reset]"]
  have b: "data (run [Style, Matplotlib, Seaborn, Bokeh 3, Bqplot 4,
              Brush (Some [march]), Interact, Interact_dropdown_cell,
              Choose 0 2, Tse_new, Tse_selected, Tse_show, Tse_reset] example_nb)
     = example_data"
    by (simp add: example_nb_def)
  from w a b show ?thesis by simp
qed

section \<open>The plotting cells\<close>




section \<open>The styled table\<close>

lemma setup_index_distinct:
  "distinct (map (\<lambda>i. \<lparr>year = 2000, month = Suc i, day = 1\<rparr>) [0..<12])"
  by (simp add: distinct_map inj_on_def)

lemma setup_cell_unique:
  assumes "setup_cell rnd = Inr st0"
  shows "wf_frame (data st0)" "distinct (index (data st0))" "distinct (columns (data st0))"
proof -
  note d = setup_cell_data[OF assms]
  show "wf_frame (data st0)" by (simp add: d wf_frame_def list_all_iff)
  show "distinct (index (data st0))" using setup_index_distinct by (simp add: d)
  show "distinct (columns (data st0))" by (simp add: setup_cell_columns[OF assms])
qed

lemma setup_cell_column:
  assumes "setup_cell rnd = Inr st0" and "j < 6"
  shows "snd (cols (data st0) ! j) = map Num (map (rnd j) [0..<12])"
  using assms(2) by (simp add: setup_cell_data[OF assms(1)] comp_def)

text \<open>
  C1, as the code has it. When \<open>func(s)\<close> returns a value \<open>m\<close>, \<open>highlight(s, func, color)\<close>
  returns a list as long as \<open>s\<close> whose entry \<open>i\<close> is \<open>'background-color: {color}'\<close> when the
  value \<open>i\<close> of \<open>s\<close> compares equal (\<open>==\<close>) to \<open>m\<close> and the empty string otherwise, and the
  two strings differ. \<open>hmin\<close> is \<open>highlight\<close> with \<open>min\<close> and \<open>'red'\<close>, \<open>hmax\<close> with \<open>max\<close> and
  \<open>'lime'\<close>. So the styled table marks exactly the minimum and the maximum of each column:
  at every point after the setup the styling cell succeeds and shows a cell of the table
  red exactly when its value is the least of its column, and lime exactly when it is the
  greatest. The same holds of every well-formed frame with unique row and column labels,
  with \<open>min\<close> and \<open>max\<close> of the column, which on numbers are the least and the greatest
  value.
\<close>

theorem highlight_marks_equal_cells:
  fixes s :: "('a::linorder) series" and st st0 :: "'a nb"
  shows
  "(func s = Inr m \<longrightarrow>
      (\<exists>out. highlight s func color = Inr out \<and> length out = length (svalues s) \<and>
         (\<forall>i < length (svalues s).
            out ! i = (if py_eq (svalues s ! i) m then ''background-color: '' @ color else ''''))))
   \<and> ''background-color: '' @ color \<noteq> ''''
   \<and> hmin s = highlight s py_min ''red''
   \<and> hmax s = highlight s py_max ''lime''
   \<and> (setup_cell rnd = Inr st0 \<longrightarrow>
        (\<exists>reds limes.
           style_cell (run es st0) =
             (None, emit (Display_styled (data st0) reds limes) (run es st0)) \<and>
           (\<forall>j < 6. \<forall>i < 12.
              reds ! j ! i = (if rnd j i = Min (rnd j ` {0..<12})
                              then ''background-color: red'' else '''') \<and>
              limes ! j ! i = (if rnd j i = Max (rnd j ` {0..<12})
                               then ''background-color: lime'' else ''''))))
   \<and> (wf_frame (data st) \<and> distinct (index (data st)) \<and> distinct (columns (data st)) \<longrightarrow>
        (\<exists>reds limes.
           style_cell st = (None, emit (Display_styled (data st) reds limes) st) \<and>
           length reds = length (cols (data st)) \<and> length limes = length (cols (data st)) \<and>
           (\<forall>j < length (cols (data st)). \<forall>i < length (index (data st)).
              \<exists>lo hi.
                py_min (column_series (data st) (cols (data st) ! j)) = Inr lo \<and>
                py_max (column_series (data st) (cols (data st) ! j)) = Inr hi \<and>
                reds ! j ! i = (if py_eq (snd (cols (data st) ! j) ! i) lo
                                then ''background-color: red'' else '''') \<and>
                limes ! j ! i = (if py_eq (snd (cols (data st) ! j) ! i) hi
                                 then ''background-color: lime'' else ''''))))
   \<and> (svalues s = map Num xs \<and> xs \<noteq> [] \<longrightarrow>
        py_min s = Inr (Num (Min (set xs))) \<and> py_max s = Inr (Num (Max (set xs))))"
proof (intro conjI impI)
  assume "func s = Inr m"
  then show "\<exists>out. highlight s func color = Inr out \<and> length out = length (svalues s) \<and>
         (\<forall>i < length (svalues s).
            out ! i = (if py_eq (svalues s ! i) m then ''background-color: '' @ color else ''''))"
    by (simp add: highlight_Inr)
next
  show "''background-color: '' @ color \<noteq> ''''" by simp
next
  show "hmin s = highlight s py_min ''red''" by (simp add: hmin_def)
next
  show "hmax s = highlight s py_max ''lime''" by (simp add: hmax_def)
next
  assume s0: "setup_cell rnd = Inr st0"
  let ?st = "run es st0"
  have dd: "data ?st = data st0" by (rule run_data)
  note u = setup_cell_unique[OF s0]
  have sh: "length (cols (data st0)) = 6" "length (index (data st0)) = 12"
    by (simp_all add: setup_cell_data[OF s0])
  from style_cell_marks[of ?st] u dd
  obtain reds limes where rl:
    "style_cell ?st = (None, emit (Display_styled (data st0) reds limes) ?st)"
    "\<forall>j < length (cols (data st0)). \<forall>i < length (index (data st0)).
              \<exists>lo hi.
                py_min (column_series (data st0) (cols (data st0) ! j)) = Inr lo \<and>
                py_max (column_series (data st0) (cols (data st0) ! j)) = Inr hi \<and>
                reds ! j ! i = (if py_eq (snd (cols (data st0) ! j) ! i) lo
                                then ''background-color: red'' else '''') \<and>
                limes ! j ! i = (if py_eq (snd (cols (data st0) ! j) ! i) hi
                                 then ''background-color: lime'' else '''')"
    by auto
  have "\<forall>j < 6. \<forall>i < 12.
              reds ! j ! i = (if rnd j i = Min (rnd j ` {0..<12})
                              then ''background-color: red'' else '''') \<and>
              limes ! j ! i = (if rnd j i = Max (rnd j ` {0..<12})
                               then ''background-color: lime'' else '''')"
  proof (intro allI impI)
    fix j i :: nat assume j: "j < 6" and i: "i < 12"
    let ?col = "column_series (data st0) (cols (data st0) ! j)"
    have sv: "svalues ?col = map Num (map (rnd j) [0..<12])"
      by (simp add: column_series_def setup_cell_column[OF s0 j])
    have ne: "map (rnd j) [0..<12] \<noteq> []" by simp
    have lo: "py_min ?col = Inr (Num (Min (rnd j ` {0..<12})))"
      using py_min_Num[OF sv ne] by simp
    have hi: "py_max ?col = Inr (Num (Max (rnd j ` {0..<12})))"
      using py_max_Num[OF sv ne] by simp
    have v: "snd (cols (data st0) ! j) ! i = Num (rnd j i)"
      using i by (simp add: setup_cell_column[OF s0 j])
    have jj: "j < length (cols (data st0))" "i < length (index (data st0))"
      using j i sh by simp_all
    from rl(2) jj obtain lo' hi' where c:
      "py_min ?col = Inr lo'" "py_max ?col = Inr hi'"
      "reds ! j ! i = (if py_eq (snd (cols (data st0) ! j) ! i) lo'
                       then ''background-color: red'' else '''')"
      "limes ! j ! i = (if py_eq (snd (cols (data st0) ! j) ! i) hi'
                        then ''background-color: lime'' else '''')"
      by blast
    from c(1) lo have "lo' = Num (Min (rnd j ` {0..<12}))" by simp
    moreover from c(2) hi have "hi' = Num (Max (rnd j ` {0..<12}))" by simp
    ultimately show "reds ! j ! i = (if rnd j i = Min (rnd j ` {0..<12})
                              then ''background-color: red'' else '''') \<and>
              limes ! j ! i = (if rnd j i = Max (rnd j ` {0..<12})
                               then ''background-color: lime'' else '''')"
      using c(3,4) v by simp
  qed
  with rl(1) show "\<exists>reds limes.
           style_cell (run es st0) =
             (None, emit (Display_styled (data st0) reds limes) (run es st0)) \<and>
           (\<forall>j < 6. \<forall>i < 12.
              reds ! j ! i = (if rnd j i = Min (rnd j ` {0..<12})
                              then ''background-color: red'' else '''') \<and>
              limes ! j ! i = (if rnd j i = Max (rnd j ` {0..<12})
                               then ''background-color: lime'' else ''''))"
    by blast
next
  assume "wf_frame (data st) \<and> distinct (index (data st)) \<and> distinct (columns (data st))"
  then show "\<exists>reds limes.
           style_cell st = (None, emit (Display_styled (data st) reds limes) st) \<and>
           length reds = length (cols (data st)) \<and> length limes = length (cols (data st)) \<and>
           (\<forall>j < length (cols (data st)). \<forall>i < length (index (data st)).
              \<exists>lo hi.
                py_min (column_series (data st) (cols (data st) ! j)) = Inr lo \<and>
                py_max (column_series (data st) (cols (data st) ! j)) = Inr hi \<and>
                reds ! j ! i = (if py_eq (snd (cols (data st) ! j) ! i) lo
                                then ''background-color: red'' else '''') \<and>
                limes ! j ! i = (if py_eq (snd (cols (data st) ! j) ! i) hi
                                 then ''background-color: lime'' else ''''))"
    using style_cell_marks[of st] by blast
next
  assume "svalues s = map Num xs \<and> xs \<noteq> []"
  then show "py_min s = Inr (Num (Min (set xs)))" by (simp add: py_min_Num)
next
  assume "svalues s = map Num xs \<and> xs \<noteq> []"
  then show "py_max s = Inr (Num (Max (set xs)))" by (simp add: py_max_Num)
qed

theorem highlight_marks_equal_cells_witness:
  "py_min example_series = Inr (Num 1)
   \<and> svalues example_series = map Num [3, 1, 2] \<and> [3, 1, 2 :: real] \<noteq> []
   \<and> py_max example_series = Inr (Num 3)
   \<and> wf_frame (data example_nb) \<and> distinct (index (data example_nb))
   \<and> distinct (columns (data example_nb))
   \<and> setup_cell example_rnd = Inr example_nb
   \<and> (\<exists>out. highlight example_series py_min ''red'' = Inr out \<and> length out = 3 \<and>
          out ! 0 = '''' \<and> out ! 1 = ''background-color: red'' \<and> out ! 2 = '''')
   \<and> (\<exists>reds limes.
          style_cell example_nb = (None, emit (Display_styled (data example_nb) reds limes) example_nb) \<and>
          length reds = 6 \<and> length limes = 6)
   \<and> (\<exists>reds limes.
          style_cell example_nb = (None, emit (Display_styled (data example_nb) reds limes) example_nb) \<and>
          reds ! 0 ! 0 = (if example_rnd 0 0 = Min (example_rnd 0 ` {0..<12})
                          then ''background-color: red'' else ''''))"
proof -
  have h1: "py_min example_series = Inr (Num 1)"
    by (simp add: py_min_def example_series_def)
  have h2: "svalues example_series = map Num [3, 1, 2]"
    by (simp add: example_series_def)
  have s0: "setup_cell example_rnd = Inr example_nb" by (rule setup_cell_example)
  have h3: "wf_frame (data example_nb) \<and> distinct (index (data example_nb))
            \<and> distinct (columns (data example_nb))"
    using setup_cell_unique[OF s0] by simp
  note t = highlight_marks_equal_cells
             [where func = py_min and s = example_series and m = "Num 1" and color = "''red''"
                and st = example_nb and xs = "[3, 1, 2]" and rnd = example_rnd
                and ?st0.0 = example_nb and es = "[]"]
  from t h1 obtain out where out:
    "highlight example_series py_min ''red'' = Inr out"
    "length out = length (svalues example_series)"
    "\<forall>i < length (svalues example_series).
        out ! i = (if py_eq (svalues example_series ! i) (Num 1)
                   then ''background-color: '' @ ''red'' else '''')"
    by blast
  have l: "length (svalues example_series) = 3" by (simp add: example_series_def)
  have o0: "out ! 0 = ''''" using out(3) l by (simp add: example_series_def)
  have o1: "out ! 1 = ''background-color: red''" using out(3) l by (simp add: example_series_def)
  have o2: "out ! 2 = ''''" using out(3) l by (simp add: example_series_def)
  from t h3 obtain reds limes where rl:
    "style_cell example_nb = (None, emit (Display_styled (data example_nb) reds limes) example_nb)"
    "length reds = length (cols (data example_nb))"
    "length limes = length (cols (data example_nb))"
    by blast
  have c: "length (cols (data example_nb)) = 6"
    by (simp add: example_nb_def example_data_def)
  from t h2 have "py_max example_series = Inr (Num (Max (set [3, 1, 2])))" by blast
  then have m: "py_max example_series = Inr (Num 3)" by simp
  from t s0 obtain reds' limes' where rl':
    "style_cell (run [] example_nb) =
       (None, emit (Display_styled (data example_nb) reds' limes') (run [] example_nb))"
    "\<forall>j < 6. \<forall>i < 12.
        reds' ! j ! i = (if example_rnd j i = Min (example_rnd j ` {0..<12})
                         then ''background-color: red'' else '''') \<and>
        limes' ! j ! i = (if example_rnd j i = Max (example_rnd j ` {0..<12})
                          then ''background-color: lime'' else '''')"
    by blast
  from rl'(2) have "reds' ! 0 ! 0 = (if example_rnd 0 0 = Min (example_rnd 0 ` {0..<12})
                          then ''background-color: red'' else '''')" by simp
  with rl'(1) have e: "\<exists>reds limes.
          style_cell example_nb = (None, emit (Display_styled (data example_nb) reds limes) example_nb) \<and>
          reds ! 0 ! 0 = (if example_rnd 0 0 = Min (example_rnd 0 ` {0..<12})
                          then ''background-color: red'' else '''')"
    by auto
  from h1 h2 h3 s0 out(1,2) l o0 o1 o2 rl c m e show ?thesis by auto
qed

text \<open>
  The claim as the spec words it, "for every Series and every selector", fails where the
  selector raises: \<open>min\<close> of the empty series.
\<close>

theorem highlight_empty_series_counterexample:
  "highlight empty_series py_min ''red'' = Inl ValueError"
  by (simp add: highlight_def py_min_def empty_series_def)

text \<open>
  C9. On a series that is not empty and holds no NaN, \<open>min\<close> and \<open>max\<close> return a value of
  the series, and \<open>hmin\<close> and \<open>hmax\<close> return a list with at least one red, respectively
  lime, entry. On the empty series \<open>hmin\<close> and \<open>hmax\<close> raise ValueError.
\<close>

theorem hmin_hmax_mark_an_entry:
  fixes s :: "('a::linorder) series"
  shows
  "(svalues s \<noteq> [] \<and> NaN \<notin> set (svalues s) \<longrightarrow>
      (\<exists>lo hi reds limes.
         py_min s = Inr lo \<and> lo \<in> set (svalues s) \<and>
         py_max s = Inr hi \<and> hi \<in> set (svalues s) \<and>
         hmin s = Inr reds \<and> ''background-color: red'' \<in> set reds \<and>
         hmax s = Inr limes \<and> ''background-color: lime'' \<in> set limes))
   \<and> (svalues s = [] \<longrightarrow> hmin s = Inl ValueError \<and> hmax s = Inl ValueError)"
proof (intro conjI impI)
  assume a: "svalues s \<noteq> [] \<and> NaN \<notin> set (svalues s)"
  from a py_min_total obtain lo where lo: "py_min s = Inr lo" by blast
  from a py_max_total obtain hi where hi: "py_max s = Inr hi" by blast
  have lom: "lo \<in> set (svalues s)" using lo by (rule py_min_mem)
  have him: "hi \<in> set (svalues s)" using hi by (rule py_max_mem)
  from a lom have "lo \<noteq> NaN" by auto
  with lo lom highlight_marks[of py_min s lo "''red''"]
  obtain reds where reds: "hmin s = Inr reds" "''background-color: red'' \<in> set reds"
    by (auto simp: hmin_def)
  from a him have "hi \<noteq> NaN" by auto
  with hi him highlight_marks[of py_max s hi "''lime''"]
  obtain limes where limes: "hmax s = Inr limes" "''background-color: lime'' \<in> set limes"
    by (auto simp: hmax_def)
  from lo lom hi him reds limes
  show "\<exists>lo hi reds limes.
         py_min s = Inr lo \<and> lo \<in> set (svalues s) \<and>
         py_max s = Inr hi \<and> hi \<in> set (svalues s) \<and>
         hmin s = Inr reds \<and> ''background-color: red'' \<in> set reds \<and>
         hmax s = Inr limes \<and> ''background-color: lime'' \<in> set limes"
    by blast
next
  assume "svalues s = []"
  then show "hmin s = Inl ValueError"
    by (simp add: hmin_def highlight_Inl py_min_empty)
next
  assume "svalues s = []"
  then show "hmax s = Inl ValueError"
    by (simp add: hmax_def highlight_Inl py_max_empty)
qed

theorem hmin_hmax_mark_an_entry_witness:
  "svalues example_series \<noteq> [] \<and> NaN \<notin> set (svalues example_series)
   \<and> (\<exists>reds limes. hmin example_series = Inr reds \<and> ''background-color: red'' \<in> set reds \<and>
          hmax example_series = Inr limes \<and> ''background-color: lime'' \<in> set limes)
   \<and> svalues empty_series = []
   \<and> hmin empty_series = Inl ValueError \<and> hmax empty_series = Inl ValueError"
proof -
  have h1: "svalues example_series \<noteq> [] \<and> NaN \<notin> set (svalues example_series)"
    by (simp add: example_series_def)
  have h2: "svalues empty_series = []"
    by (simp add: empty_series_def)
  from hmin_hmax_mark_an_entry[of example_series] h1
  have a: "\<exists>reds limes. hmin example_series = Inr reds \<and> ''background-color: red'' \<in> set reds \<and>
          hmax example_series = Inr limes \<and> ''background-color: lime'' \<in> set limes"
    by blast
  from hmin_hmax_mark_an_entry[of empty_series] h2
  have b: "hmin empty_series = Inl ValueError \<and> hmax empty_series = Inl ValueError"
    by blast
  from h1 h2 a b show ?thesis by simp
qed

section \<open>The uses of the TSExplorer object\<close>

lemma tse_new_cell_log:
  "tse_log (snd (tse_new_cell st)) =
     (if widgets_bound st then tse_log st @ [New ''TSExplorer'' [''layout'']] else tse_log st)"
  by (simp add: tse_new_cell_def emit_def Let_def)

lemma tse_selected_cell_log:
  "tse_log (snd (tse_selected_cell st)) =
     (if tse st = None then tse_log st else tse_log st @ [Attr ''selected_data''])"
  by (simp add: tse_selected_cell_def emit_def split: option.splits)

lemma tse_show_cell_log: "tse_log (snd (tse_show_cell st)) = tse_log st"
  by (simp add: tse_show_cell_def emit_def split: option.splits)

lemma tse_reset_cell_log:
  "tse_log (snd (tse_reset_cell st)) =
     (if tse st = None then tse_log st
      else tse_log st @ [Call ''reset'' [''selected_feature'', ''selected_dates''],
                         Attr ''selected_data''])"
  by (simp add: tse_reset_cell_def emit_def split: option.splits)

lemma style_cell_log: "tse_log (snd (style_cell st)) = tse_log st"
  by (simp add: style_cell_def emit_def split: sum.splits)

lemma matplotlib_cell_log: "tse_log (snd (matplotlib_cell st)) = tse_log st"
  by (simp add: matplotlib_cell_def emit_def Let_def)

lemma seaborn_cell_log: "tse_log (snd (seaborn_cell st)) = tse_log st"
  by (simp add: seaborn_cell_def emit_def split: option.splits)

lemma bokeh_cell_log: "tse_log (snd (bokeh_cell r st)) = tse_log st"
  by (simp add: bokeh_cell_def emit_def Let_def split: sum.splits)

lemma bqplot_cell_log: "tse_log (snd (bqplot_cell r st)) = tse_log st"
  by (simp add: bqplot_cell_def emit_def Let_def split: sum.splits)

lemma callback_log: "tse_log (snd (index_sel_dt_callback ch st)) = tse_log st"
  by (simp add: index_sel_dt_callback_def split: sum.splits option.splits bool.splits)

lemma brush_log: "tse_log (snd (brush sel st)) = tse_log st"
  by (simp add: brush_def callback_log split: option.splits)

lemma select_series_log: "tse_log (snd (select_series c st)) = tse_log st"
  by (simp add: select_series_def emit_def split: sum.splits option.splits)

lemma interactive_update_log:
  "tse_log (snd (call st)) = tse_log st \<Longrightarrow>
   tse_log (snd (interactive_update call st)) = tse_log st"
  by (cases "call st") (auto simp: interactive_update_def emit_def split: option.splits)

lemma interact_log: "tse_log (snd (interact d st)) = tse_log st"
  by (simp add: interact_def emit_def Let_def interactive_update_log select_series_log
           split: list.splits)

lemma interact_cell_log: "tse_log (snd (interact_cell st)) = tse_log st"
  by (simp add: interact_cell_def interact_log)

lemma interact_dropdown_cell_log: "tse_log (snd (interact_dropdown_cell st)) = tse_log st"
  by (simp add: interact_dropdown_cell_def interact_log)

lemma choose_option_log: "tse_log (snd (choose_option k i st)) = tse_log st"
  by (simp add: choose_option_def select_series_log)

lemmas cell_log =
  style_cell_log matplotlib_cell_log seaborn_cell_log bokeh_cell_log bqplot_cell_log
  brush_log interact_cell_log interact_dropdown_cell_log choose_option_log tse_new_cell_log tse_selected_cell_log
  tse_show_cell_log tse_reset_cell_log

lemma step_log: "set (tse_log (snd (step e st))) \<subseteq> set (tse_log st) \<union> tse_interfaces"
  by (cases e) (auto simp: cell_log interactive_update_log tse_interfaces_def)

lemma run_log: "set (tse_log (run es st)) \<subseteq> set (tse_log st) \<union> tse_interfaces"
proof (induction es arbitrary: st)
  case Nil
  show ?case by simp
next
  case (Cons e es)
  have "set (tse_log (run es (snd (step e st)))) \<subseteq> set (tse_log (snd (step e st))) \<union> tse_interfaces"
    by (rule Cons)
  with step_log[of e st] show ?case by auto
qed

lemma setup_cell_log: "setup_cell rnd = Inr st0 \<Longrightarrow> tse_log st0 = []"
  by (auto simp: setup_cell_def split: sum.splits)

text \<open>
  C7. Whatever is run after the setup, every access of the notebook to the \<open>TSExplorer\<close>
  object is one of three: the constructor with the keyword \<open>layout\<close>, a read of
  \<open>selected_data\<close>, or a call of \<open>reset\<close> with the keywords \<open>selected_feature\<close> and
  \<open>selected_dates\<close>. (The cells that end in the bare name \<open>tse\<close> show the object and reach
  into nothing.)
\<close>

theorem tse_reached_through_three_interfaces:
  "set (tse_log (snd (step e st))) \<subseteq> set (tse_log st) \<union> tse_interfaces
   \<and> set (tse_log (run es st)) \<subseteq> set (tse_log st) \<union> tse_interfaces
   \<and> (setup_cell rnd = Inr st0 \<longrightarrow>
        set (tse_log (run es st0)) \<subseteq>
          {New ''TSExplorer'' [''layout''],
           Attr ''selected_data'',
           Call ''reset'' [''selected_feature'', ''selected_dates'']})"
proof (intro conjI impI)
  show "set (tse_log (snd (step e st))) \<subseteq> set (tse_log st) \<union> tse_interfaces"
    by (rule step_log)
next
  show "set (tse_log (run es st)) \<subseteq> set (tse_log st) \<union> tse_interfaces"
    by (rule run_log)
next
  assume "setup_cell rnd = Inr st0"
  then have "tse_log st0 = []" by (rule setup_cell_log)
  with run_log[of es st0]
  show "set (tse_log (run es st0)) \<subseteq>
          {New ''TSExplorer'' [''layout''],
           Attr ''selected_data'',
           Call ''reset'' [''selected_feature'', ''selected_dates'']}"
    by (simp add: tse_interfaces_def)
qed

theorem tse_reached_through_three_interfaces_witness:
  "setup_cell example_rnd = Inr example_nb
   \<and> tse_log (run [Tse_selected, Interact, Tse_new, Tse_selected, Tse_show, Tse_reset] example_nb) =
       [New ''TSExplorer'' [''layout''], Attr ''selected_data'',
        Call ''reset'' [''selected_feature'', ''selected_dates''], Attr ''selected_data'']
   \<and> set (tse_log (run [Tse_selected, Interact, Tse_new, Tse_selected, Tse_show, Tse_reset] example_nb)) \<subseteq>
          {New ''TSExplorer'' [''layout''],
           Attr ''selected_data'',
           Call ''reset'' [''selected_feature'', ''selected_dates'']}"
proof -
  have s: "setup_cell example_rnd = Inr example_nb" by (rule setup_cell_example)
  have l: "tse_log (run [Tse_selected, Interact, Tse_new, Tse_selected, Tse_show, Tse_reset] example_nb) =
       [New ''TSExplorer'' [''layout''], Attr ''selected_data'',
        Call ''reset'' [''selected_feature'', ''selected_dates''], Attr ''selected_data'']"
    by (simp add: tse_selected_cell_def tse_new_cell_def tse_show_cell_def tse_reset_cell_def
                  interact_cell_def interact_def interactive_update_def select_series_def
                  getitem_def columns_def emit_def Let_def example_nb_def example_data_def)
  from tse_reached_through_three_interfaces
         [where rnd = example_rnd and ?st0.0 = example_nb and
                es = "[Tse_selected, Interact, Tse_new, Tse_selected, Tse_show, Tse_reset]"] s
  have "set (tse_log (run [Tse_selected, Interact, Tse_new, Tse_selected, Tse_show, Tse_reset] example_nb)) \<subseteq>
          {New ''TSExplorer'' [''layout''],
           Attr ''selected_data'',
           Call ''reset'' [''selected_feature'', ''selected_dates'']}"
    by blast
  with s l show ?thesis by blast
qed

section \<open>The random column\<close>

lemma random_choice_mem:
  "xs \<noteq> [] \<Longrightarrow> \<exists>c. random_choice r xs = Inr c \<and> c \<in> set xs"
  by (simp add: random_choice_def)

lemma filter_label_nonempty:
  "c \<in> set (columns d) \<Longrightarrow> filter (\<lambda>p. fst p = c) (cols d) \<noteq> []"
  by (auto simp: columns_def filter_empty_conv)

lemma getitem_member: "c \<in> set (columns d) \<Longrightarrow> \<exists>x. getitem d c = Inr x"
  using filter_label_nonempty[of c d]
  by (cases "filter (\<lambda>p. fst p = c) (cols d)")
     (auto simp: getitem_def split: list.splits)

lemma getitem_list_member:
  "c \<in> set (columns d) \<Longrightarrow>
   getitem_list d [c] = Inr \<lparr>index = index d, cols = filter (\<lambda>p. fst p = c) (cols d)\<rparr>"
  using filter_label_nonempty[of c d]
  by (cases "filter (\<lambda>p. fst p = c) (cols d)") (auto simp: getitem_list_def)

lemma bokeh_cell_no_error: "columns (data st) \<noteq> [] \<Longrightarrow> fst (bokeh_cell r st) = None"
proof -
  assume "columns (data st) \<noteq> []"
  from random_choice_mem[OF this, of r] obtain c where
    c: "random_choice r (columns (data st)) = Inr c" "c \<in> set (columns (data st))" by blast
  show ?thesis
    using c(1) getitem_list_member[OF c(2)]
    by (simp add: bokeh_cell_def emit_def Let_def)
qed

lemma bqplot_cell_no_error: "columns (data st) \<noteq> [] \<Longrightarrow> fst (bqplot_cell r st) = None"
proof -
  assume "columns (data st) \<noteq> []"
  from random_choice_mem[OF this, of r] obtain c where
    c: "random_choice r (columns (data st)) = Inr c" "c \<in> set (columns (data st))" by blast
  from getitem_member[OF c(2)] obtain x where "getitem (data st) c = Inr x" by blast
  with c(1) show ?thesis
    by (simp add: bqplot_cell_def emit_def Let_def)
qed

text \<open>
  C10. When the frame has a column, \<open>random.choice(data.columns)\<close> returns a label of
  \<open>data.columns\<close>, \<open>data[[col]]\<close> and \<open>data[col]\<close> return a value and raise no KeyError, and
  neither the bokeh cell nor the bqplot cell raises. When the labels are distinct as well,
  \<open>data[[col]]\<close> is the frame of the one column with the label and \<open>data[col]\<close> is that
  column as a Series. At every point after the setup the frame has six columns with
  distinct labels.
\<close>

theorem random_column_is_a_column:
  "(columns (data st) \<noteq> [] \<longrightarrow>
      (\<exists>c. random_choice r (columns (data st)) = Inr c \<and> c \<in> set (columns (data st)) \<and>
         (\<exists>d. getitem_list (data st) [c] = Inr d) \<and>
         (\<exists>x. getitem (data st) c = Inr x) \<and>
         fst (bokeh_cell r st) = None \<and> fst (bqplot_cell r st) = None))
   \<and> (columns (data st) \<noteq> [] \<and> distinct (columns (data st)) \<longrightarrow>
        (\<exists>c vs. random_choice r (columns (data st)) = Inr c \<and> (c, vs) \<in> set (cols (data st)) \<and>
           getitem_list (data st) [c] = Inr \<lparr>index = index (data st), cols = [(c, vs)]\<rparr> \<and>
           getitem (data st) c =
             Inr (Ser \<lparr>sname = Some c, sindex = index (data st), svalues = vs\<rparr>)))
   \<and> (setup_cell rnd = Inr st0 \<longrightarrow>
        length (columns (data (run es st0))) = 6 \<and> distinct (columns (data (run es st0))))"
proof (intro conjI impI)
  assume ne: "columns (data st) \<noteq> []"
  from random_choice_mem[OF ne, of r] obtain c where
    c: "random_choice r (columns (data st)) = Inr c" "c \<in> set (columns (data st))" by blast
  have 1: "\<exists>d. getitem_list (data st) [c] = Inr d"
    using getitem_list_member[OF c(2)] by simp
  have 2: "\<exists>x. getitem (data st) c = Inr x"
    using c(2) by (rule getitem_member)
  from c 1 2 bokeh_cell_no_error[OF ne, of r] bqplot_cell_no_error[OF ne, of r]
  show "\<exists>c. random_choice r (columns (data st)) = Inr c \<and> c \<in> set (columns (data st)) \<and>
         (\<exists>d. getitem_list (data st) [c] = Inr d) \<and>
         (\<exists>x. getitem (data st) c = Inr x) \<and>
         fst (bokeh_cell r st) = None \<and> fst (bqplot_cell r st) = None"
    by blast
next
  assume a: "columns (data st) \<noteq> [] \<and> distinct (columns (data st))"
  then have ne: "columns (data st) \<noteq> []" and di: "distinct (columns (data st))" by simp_all
  from random_choice_mem[OF ne, of r] obtain c where
    c: "random_choice r (columns (data st)) = Inr c" "c \<in> set (columns (data st))" by blast
  from column_of_label[OF c(2)] obtain vs where vs: "(c, vs) \<in> set (cols (data st))" by blast
  from c(1) vs getitem_list_column[OF di vs] getitem_column[OF di vs]
  show "\<exists>c vs. random_choice r (columns (data st)) = Inr c \<and> (c, vs) \<in> set (cols (data st)) \<and>
           getitem_list (data st) [c] = Inr \<lparr>index = index (data st), cols = [(c, vs)]\<rparr> \<and>
           getitem (data st) c =
             Inr (Ser \<lparr>sname = Some c, sindex = index (data st), svalues = vs\<rparr>)"
    by blast
next
  assume s: "setup_cell rnd = Inr st0"
  show "length (columns (data (run es st0))) = 6"
    by (simp add: run_data setup_cell_columns[OF s])
next
  assume s: "setup_cell rnd = Inr st0"
  show "distinct (columns (data (run es st0)))"
    by (simp add: run_data setup_cell_columns[OF s])
qed

theorem random_column_is_a_column_witness:
  "columns (data example_nb) \<noteq> [] \<and> distinct (columns (data example_nb))
   \<and> setup_cell example_rnd = Inr example_nb
   \<and> fst (bokeh_cell 4 example_nb) = None \<and> fst (bqplot_cell 4 example_nb) = None
   \<and> (\<exists>c vs. random_choice 4 (columns (data example_nb)) = Inr c \<and>
         getitem (data example_nb) c =
           Inr (Ser \<lparr>sname = Some c, sindex = index (data example_nb), svalues = vs\<rparr>))
   \<and> length (columns (data (run [Bokeh 1, Bqplot 2] example_nb))) = 6"
proof -
  have h: "columns (data example_nb) \<noteq> [] \<and> distinct (columns (data example_nb))"
    by (simp add: example_nb_def example_columns)
  have s: "setup_cell example_rnd = Inr example_nb" by (rule setup_cell_example)
  note t = random_column_is_a_column
             [where st = example_nb and r = 4 and rnd = example_rnd and ?st0.0 = example_nb and
                    es = "[Bokeh 1, Bqplot 2]"]
  from t h have a: "fst (bokeh_cell 4 example_nb) = None \<and> fst (bqplot_cell 4 example_nb) = None"
    by blast
  from t h have b: "\<exists>c vs. random_choice 4 (columns (data example_nb)) = Inr c \<and>
         getitem (data example_nb) c =
           Inr (Ser \<lparr>sname = Some c, sindex = index (data example_nb), svalues = vs\<rparr>)"
    by blast
  from t s have c: "length (columns (data (run [Bokeh 1, Bqplot 2] example_nb))) = 6"
    by blast
  from h s a b c show ?thesis by blast
qed

section \<open>Exceptions\<close>







end
